theory Spec2Isabelle
  imports Complex_Main
begin

section \<open>Path model (dataconverter/helpers.py)\<close>

text \<open>
  Paths are modelled as \<open>string\<close> (lists of 8-bit characters, read as code points below
  256): the path helpers only look for slashes, brackets and newlines. The three regular
  expressions of the path helpers are modelled by the functions below; each follows what
  \<open>re.search\<close> does: start positions are tried from left to right, \<open>.*?\<close> is lazy and
  \<open>.\<close> does not match a newline.
\<close>

text \<open>\<open>str.split('/')\<close>: the list of segments, never empty.\<close>

fun split_slash :: "string \<Rightarrow> string list" where
  "split_slash [] = [[]]"
| "split_slash (c # cs) =
     (if c = CHR ''/'' then [] # split_slash cs
      else (case split_slash cs of [] \<Rightarrow> [[c]] | s # ss \<Rightarrow> (c # s) # ss))"

text \<open>
  One anchored attempt of \<open>(.*?)(?=\<stop>)\<close>: the shortest run of non-newline characters
  that is followed by the stop character; \<open>None\<close> when there is none from this position.
\<close>

fun lazy_upto :: "char \<Rightarrow> string \<Rightarrow> string option" where
  "lazy_upto stop [] = None"
| "lazy_upto stop (c # cs) =
     (if c = stop then Some []
      else if c = CHR 0x0A then None
      else map_option ((#) c) (lazy_upto stop cs))"

text \<open>\<open>re.compile(r'(.*?)(?=\[)').search(entry)\<close>, giving \<open>group(1)\<close>.\<close>

fun search_before_bracket :: "string \<Rightarrow> string option" where
  "search_before_bracket [] = None"
| "search_before_bracket (c # cs) =
     (case lazy_upto CHR ''['' (c # cs) of
        Some g \<Rightarrow> Some g
      | None \<Rightarrow> search_before_bracket cs)"

definition convert_data_converter_entry_to_nxdl_path_entry :: "string \<Rightarrow> string" where
  "convert_data_converter_entry_to_nxdl_path_entry entry =
     (case search_before_bracket entry of None \<Rightarrow> entry | Some g \<Rightarrow> g)"

text \<open>The loop \<open>for entry in path.split('/')[1:]: nxdl_path += '/' + ...\<close>.\<close>

definition convert_data_converter_dict_to_nxdl_path :: "string \<Rightarrow> string" where
  "convert_data_converter_dict_to_nxdl_path path =
     foldl (\<lambda>nxdl_path entry.
              nxdl_path @ ''/'' @ convert_data_converter_entry_to_nxdl_path_entry entry)
           [] (tl (split_slash path))"

text \<open>
  \<open>re.compile(r'(?<=\[)(.*?)(?=\])').search(entry)\<close>, giving \<open>group(1)\<close>: a match can
  only start right after an opening bracket.
\<close>

fun search_in_brackets :: "string \<Rightarrow> string option" where
  "search_in_brackets [] = None"
| "search_in_brackets (c # cs) =
     (if c = CHR ''[''
      then (case lazy_upto CHR '']'' cs of
              Some g \<Rightarrow> Some g
            | None \<Rightarrow> search_in_brackets cs)
      else search_in_brackets cs)"

definition get_name_from_data_dict_entry :: "string \<Rightarrow> string" where
  "get_name_from_data_dict_entry entry =
     (case search_in_brackets entry of None \<Rightarrow> entry | Some g \<Rightarrow> g)"

definition convert_data_dict_path_to_hdf5_path :: "string \<Rightarrow> string" where
  "convert_data_dict_path_to_hdf5_path path =
     foldl (\<lambda>hdf5path entry. hdf5path @ ''/'' @ get_name_from_data_dict_entry entry)
           [] (tl (split_slash path))"

section \<open>Schema nodes (read_nexus.py)\<close>

text \<open>
  An element of a parsed NXDL document, as \<open>lxml.objectify\<close> presents it: the local name
  of its tag, its attribute dictionary, the base URI of the document it was parsed from
  (\<open>.base\<close>; every element of this program comes from \<open>objectify.parse\<close> of a file, so
  the URI is a string), its text content (\<open>None\<close> without text) and its element
  children in document order. Comments and processing instructions are not represented.
\<close>

datatype node =
  Node (localname: string) (attrib: "(string \<times> string) list") (base: string)
       (elem_text: "string option") (children: "node list")

text \<open>Errors are values: the exceptions the modelled code can raise.\<close>

datatype error =
    SchemaNotLoadedError
  | MissingRequiredFieldError string
  | TypeMismatchError string
  | RangeError string
  | FormatError string
  | EnumMismatchError string
  | KeyError string
  | IndexError
  | TypeError
  | ValueError
  | AttributeError
  | OSError string
  | RecursionError

text \<open>Python's \<open>sub in s\<close> on strings.\<close>

fun startswith :: "string \<Rightarrow> string \<Rightarrow> bool" where
  "startswith s [] = True"
| "startswith [] (p # ps) = False"
| "startswith (c # cs) (p # ps) = (c = p \<and> startswith cs ps)"

fun str_in :: "string \<Rightarrow> string \<Rightarrow> bool" where
  "str_in sub [] = (sub = [])"
| "str_in sub (c # cs) = (startswith (c # cs) sub \<or> str_in sub cs)"

definition endswith :: "string \<Rightarrow> string \<Rightarrow> bool" where
  "endswith s suffix = startswith (rev s) (rev suffix)"

definition get_nx_class :: "node \<Rightarrow> string" where
  "get_nx_class nxdlElem =
     (case map_of (attrib nxdlElem) ''type'' of Some t \<Rightarrow> t | None \<Rightarrow> ''NX_CHAR'')"

definition is_upper :: "char \<Rightarrow> bool" where
  "is_upper c = ((of_char (CHR ''A'') :: nat) \<le> of_char c \<and> (of_char c :: nat) \<le> of_char (CHR ''Z''))"

text \<open>
  \<open>belongs_to\<close>: the bare \<open>except\<close> only guards the read of \<open>nameType\<close>; the reads of
  \<open>attrib['name']\<close> raise KeyError on an element without a name.
\<close>

definition belongs_to :: "node \<Rightarrow> string \<Rightarrow> error + bool" where
  "belongs_to nxdlElem hdfName =
     (let nameAny = (map_of (attrib nxdlElem) ''nameType'' = Some ''any'') in
      case map_of (attrib nxdlElem) ''name'' of
        None \<Rightarrow> Inl (KeyError ''name'')
      | Some name \<Rightarrow>
          if nameAny \<and> hdfName \<noteq> ''doc'' \<and> hdfName \<noteq> ''enumeration''
          then (let rest = dropWhile is_upper name in
                Inr (rest = [] \<or> endswith hdfName rest))
          else Inr (name = hdfName))"

fun get_own_nxdl_child_from :: "node list \<Rightarrow> string \<Rightarrow> error + node option" where
  "get_own_nxdl_child_from [] name = Inr None"
| "get_own_nxdl_child_from (child # rest) name =
     (if localname child = ''group'' \<and> get_nx_class child = name then Inr (Some child)
      else if localname child = ''field'' \<or> localname child = ''attribute''
      then (case belongs_to child name of
              Inl e \<Rightarrow> Inl e
            | Inr b \<Rightarrow> if b then Inr (Some child) else get_own_nxdl_child_from rest name)
      else if localname child = ''doc'' \<and> name = ''doc'' then Inr (Some child)
      else if localname child = ''enumeration'' \<and> name = ''enumeration'' then Inr (Some child)
      else get_own_nxdl_child_from rest name)"

definition get_own_nxdl_child :: "node \<Rightarrow> string \<Rightarrow> error + node option" where
  "get_own_nxdl_child nxdlElem name = get_own_nxdl_child_from (children nxdlElem) name"

text \<open>
  The truth value of an element, which \<open>if ownChild:\<close> tests. In \<open>lxml\<close> the truth
  value of an element is whether it has children (\<open>_Element.__bool__\<close>), and an element
  of an objectify tree that has children is such an element. A childless element of an
  objectify tree is a data element (a \<open>StringElement\<close> unless its text reads as a number
  or a boolean), whose truth value is that of its value: false without text, and
  otherwise decided by the text, which is the parameter \<open>text_truth\<close>.
\<close>

definition elem_truth :: "(string \<Rightarrow> bool) \<Rightarrow> node \<Rightarrow> bool" where
  "elem_truth text_truth e =
     (if children e \<noteq> [] then True
      else (case elem_text e of None \<Rightarrow> False | Some t \<Rightarrow> text_truth t))"

text \<open>
  \<open>get_nxdl_child\<close>. The file system is the parameter \<open>documents\<close>, from a file name to
  the root element of the parsed document (no such file: \<open>objectify.parse\<close> raises
  OSError). The result is paired with the list of the files the call has opened.
\<close>

definition get_nxdl_child ::
  "(string \<Rightarrow> bool) \<Rightarrow> (string \<Rightarrow> node option) \<Rightarrow> node \<Rightarrow> string \<Rightarrow>
     string list \<times> (error + node option)" where
  "get_nxdl_child text_truth documents nxdlElem name =
     (case get_own_nxdl_child nxdlElem name of
        Inl e \<Rightarrow> ([], Inl e)
      | Inr ownChild \<Rightarrow>
          if (case ownChild of None \<Rightarrow> False | Some c \<Rightarrow> elem_truth text_truth c)
          then ([], Inr ownChild)
          else (let bc_name = get_nx_class nxdlElem in
                if length bc_name \<le> 2 then ([], Inl IndexError)
                else if bc_name ! 2 = CHR ''_'' then ([], Inr None)
                else (let file = ''definitions/base_classes/'' @ bc_name @ ''.nxdl.xml'' in
                      case documents file of
                        None \<Rightarrow> ([file], Inl (OSError file))
                      | Some bc \<Rightarrow> ([file], get_own_nxdl_child bc name))))"

definition get_required_string :: "node option \<Rightarrow> string" where
  "get_required_string nxdlElem =
     (case nxdlElem of
        None \<Rightarrow> ''<<NOT IN SCHEMA>>''
      | Some e \<Rightarrow>
          if map_of (attrib e) ''optional'' = Some ''true'' \<or>
             map_of (attrib e) ''minOccurs'' = Some ''0''
          then ''<<OPTIONAL>>''
          else if map_of (attrib e) ''recommended'' = Some ''true''
          then ''<<RECOMMENDED>>''
          else if str_in ''base_classes'' (base e) \<or>
                  map_of (attrib e) ''required'' = Some ''false''
          then ''<<OPTIONAL>>''
          else ''<<REQUIRED>>'')"

subsection \<open>A small application definition and its base class\<close>

text \<open>
  The application definition declares \<open><group type="NXentry"><field name="title"/></group>\<close>;
  the base class NXentry documents a field of the same name.
\<close>

definition ex_app_file :: string where
  "ex_app_file = ''definitions/applications/NXmx.nxdl.xml''"

definition ex_bc_file :: string where
  "ex_bc_file = ''definitions/base_classes/NXentry.nxdl.xml''"

definition ex_title :: node where
  "ex_title = Node ''field'' [(''name'', ''title'')] ex_app_file None []"

definition ex_entry :: node where
  "ex_entry = Node ''group'' [(''type'', ''NXentry'')] ex_app_file None [ex_title]"

definition ex_bc_title :: node where
  "ex_bc_title =
     Node ''field'' [(''name'', ''title'')] ex_bc_file None
       [Node ''doc'' [] ex_bc_file (Some ''Extended title for entry'') []]"

definition ex_bc_root :: node where
  "ex_bc_root =
     Node ''definition'' [(''name'', ''NXentry''), (''type'', ''group'')] ex_bc_file None
       [ex_bc_title]"

definition ex_documents :: "string \<Rightarrow> node option" where
  "ex_documents file = (if file = ex_bc_file then Some ex_bc_root else None)"

section \<open>Values of the data dictionary (dataconverter/helpers.py)\<close>

text \<open>
  A Python \<open>str\<close> value is the list of its code points, so that every character of
  Unicode can occur in it; \<open>ustr\<close> is the \<open>str\<close> of a literal. (Paths, attribute names and
  file names stay 8-bit strings: the code only splits them at ASCII delimiters and
  compares them.)
\<close>

type_synonym pystr = "nat list"

definition ustr :: "string \<Rightarrow> pystr" where
  "ustr s = map of_char s"

text \<open>
  A Python float is a finite number, an infinity or NaN; only its sign is ever used.
\<close>

datatype pyfloat = Finite real | PosInf | NegInf | NaN

text \<open>
  Scalars by their run-time class: the Python built-ins, the numpy scalar classes (with
  their width in bits; \<open>np.byte\<close> is the signed and \<open>np.ubyte\<close> the unsigned 8-bit
  class, \<open>np.float64\<close> is also a Python \<open>float\<close>, \<open>np.str_\<close> is also a \<open>str\<close>), and
  \<open>PyObject\<close> for an object of any other class, named by its class, which has no order
  with integers and equals no string.
\<close>

datatype pyscalar =
    PyNone
  | PyStr pystr
  | PyBytes string
  | PyByteArray string
  | PyBool bool
  | PyInt int
  | PyFloat pyfloat
  | NpStr pystr
  | NpBool bool
  | NpSigned nat int
  | NpUnsigned nat int
  | NpFloat nat pyfloat
  | PyObject string

text \<open>
  A value is a scalar, a numpy array (whether it is a \<open>np.chararray\<close>, and its scalar
  elements in flattened order) or a Python list of values.
\<close>

datatype pyvalue =
    Scalar pyscalar
  | NdArray bool "pyscalar list"
  | PyList "pyvalue list"

text \<open>The classes that the table of accepted types names.\<close>

datatype pytype =
    Py_str | Py_bytes | Py_bytearray | Np_byte | Np_ubyte | Np_ndarray | Py_bool | Np_bool
  | Np_chararray | Py_float | Np_floating | Py_int | Np_signedinteger | Np_unsignedinteger

text \<open>The classes of the table that a value is an instance of.\<close>

fun scalar_classes :: "pyscalar \<Rightarrow> pytype list" where
  "scalar_classes PyNone = []"
| "scalar_classes (PyStr s) = [Py_str]"
| "scalar_classes (PyBytes b) = [Py_bytes]"
| "scalar_classes (PyByteArray b) = [Py_bytearray]"
| "scalar_classes (PyBool b) = [Py_bool, Py_int]"
| "scalar_classes (PyInt i) = [Py_int]"
| "scalar_classes (PyFloat f) = [Py_float]"
| "scalar_classes (NpStr s) = [Py_str]"
| "scalar_classes (NpBool b) = [Np_bool]"
| "scalar_classes (NpSigned bits i) =
     (if bits = 8 then [Np_byte, Np_signedinteger] else [Np_signedinteger])"
| "scalar_classes (NpUnsigned bits i) =
     (if bits = 8 then [Np_ubyte, Np_unsignedinteger] else [Np_unsignedinteger])"
| "scalar_classes (NpFloat bits f) =
     (if bits = 64 then [Np_floating, Py_float] else [Np_floating])"
| "scalar_classes (PyObject cls) = []"

fun classes_of :: "pyvalue \<Rightarrow> pytype list" where
  "classes_of (Scalar s) = scalar_classes s"
| "classes_of (NdArray chararray xs) =
     (if chararray then [Np_chararray, Np_ndarray] else [Np_ndarray])"
| "classes_of (PyList objs) = []"

definition isinstance :: "pyvalue \<Rightarrow> pytype list \<Rightarrow> bool" where
  "isinstance v accepted_types = list_ex (\<lambda>t. t \<in> set (classes_of v)) accepted_types"

definition NEXUS_TO_PYTHON_DATA_TYPES :: "(string \<times> pytype list) list" where
  "NEXUS_TO_PYTHON_DATA_TYPES =
     [(''ISO8601'', [Py_str]),
      (''NX_BINARY'', [Py_bytes, Py_bytearray, Np_byte, Np_ubyte, Np_ndarray]),
      (''NX_BOOLEAN'', [Py_bool, Np_ndarray, Np_bool]),
      (''NX_CHAR'', [Py_str, Np_ndarray, Np_chararray]),
      (''NX_DATE_TIME'', [Py_str]),
      (''NX_FLOAT'', [Py_float, Np_ndarray, Np_floating]),
      (''NX_INT'', [Py_int, Np_ndarray, Np_signedinteger]),
      (''NX_UINT'', [Np_ndarray, Np_unsignedinteger]),
      (''NX_NUMBER'', [Py_int, Py_float, Np_ndarray, Np_signedinteger, Np_unsignedinteger,
                       Np_floating]),
      (''NX_POSINT'', [Py_int, Np_ndarray, Np_signedinteger]),
      (''NXDL_TYPE_UNAVAILABLE'', [Py_str])]"

text \<open>
  \<open>check_all_children_for_callable\<close>: the loop stops at the first object that the check
  rejects or on which it raises.
\<close>

fun check_all_children_for_callable ::
  "'a list \<Rightarrow> ('a \<Rightarrow> error + bool) \<Rightarrow> error + bool" where
  "check_all_children_for_callable [] check = Inr True"
| "check_all_children_for_callable (obj # objects) check =
     (case check obj of
        Inl e \<Rightarrow> Inl e
      | Inr ok \<Rightarrow> if \<not> ok then Inr False else check_all_children_for_callable objects check)"

text \<open>
  \<open>is_valid_data_type\<close>: \<open>isinstance\<close> cannot raise, so the loop over the children of a
  list is \<open>list_all\<close>.
\<close>

definition is_valid_data_type :: "pyvalue \<Rightarrow> pytype list \<Rightarrow> bool" where
  "is_valid_data_type v accepted_types =
     (case v of
        PyList objects \<Rightarrow> list_all (\<lambda>obj. isinstance obj accepted_types) objects
      | _ \<Rightarrow> isinstance v accepted_types)"

fun float_gt_zero :: "pyfloat \<Rightarrow> bool" where
  "float_gt_zero (Finite r) = (0 < r)"
| "float_gt_zero PosInf = True"
| "float_gt_zero NegInf = False"
| "float_gt_zero NaN = False"

text \<open>\<open>x > 0\<close> on a scalar: TypeError where the class has no order with integers.\<close>

fun scalar_gt_zero :: "pyscalar \<Rightarrow> error + bool" where
  "scalar_gt_zero (PyBool b) = Inr b"
| "scalar_gt_zero (PyInt i) = Inr (0 < i)"
| "scalar_gt_zero (PyFloat f) = Inr (float_gt_zero f)"
| "scalar_gt_zero (NpBool b) = Inr b"
| "scalar_gt_zero (NpSigned bits i) = Inr (0 < i)"
| "scalar_gt_zero (NpUnsigned bits i) = Inr (0 < i)"
| "scalar_gt_zero (NpFloat bits f) = Inr (float_gt_zero f)"
| "scalar_gt_zero _ = Inl TypeError"

text \<open>
  \<open>lambda x: x.flat[0] > 0 if isinstance(x, np.ndarray) else x > 0\<close>; \<open>flat[0]\<close> of an
  empty array raises IndexError.
\<close>

fun is_greater_than :: "pyvalue \<Rightarrow> error + bool" where
  "is_greater_than (NdArray chararray []) = Inl IndexError"
| "is_greater_than (NdArray chararray (x # xs)) = scalar_gt_zero x"
| "is_greater_than (Scalar x) = scalar_gt_zero x"
| "is_greater_than (PyList objs) = Inl TypeError"

definition is_positive_int :: "pyvalue \<Rightarrow> error + bool" where
  "is_positive_int v =
     (case v of
        PyList objects \<Rightarrow> check_all_children_for_callable objects is_greater_than
      | _ \<Rightarrow> is_greater_than v)"

subsection \<open>The timestamp pattern\<close>

text \<open>
  In a pattern on \<open>str\<close> that is compiled without flags, \<open>\d\<close> matches every Unicode
  decimal digit (general category Nd), not only \<open>0\<close> to \<open>9\<close>. The table lists the ranges
  of the code points of that category, first and last, in Unicode 14.0, the database of
  Python 3.11 (\<open>str.isdecimal\<close>): the ASCII digits, the Arabic-Indic digits from 1632,
  and so on up to the digits from 130032.
\<close>

definition unicode_decimal_digits :: "(nat \<times> nat) list" where
  "unicode_decimal_digits =
     [(48, 57), (1632, 1641), (1776, 1785), (1984, 1993), (2406, 2415), (2534, 2543),
      (2662, 2671), (2790, 2799), (2918, 2927), (3046, 3055), (3174, 3183), (3302, 3311),
      (3430, 3439), (3558, 3567), (3664, 3673), (3792, 3801), (3872, 3881), (4160, 4169),
      (4240, 4249), (6112, 6121), (6160, 6169), (6470, 6479), (6608, 6617), (6784, 6793),
      (6800, 6809), (6992, 7001), (7088, 7097), (7232, 7241), (7248, 7257),
      (42528, 42537), (43216, 43225), (43264, 43273), (43472, 43481), (43504, 43513),
      (43600, 43609), (44016, 44025), (65296, 65305), (66720, 66729), (68912, 68921),
      (69734, 69743), (69872, 69881), (69942, 69951), (70096, 70105), (70384, 70393),
      (70736, 70745), (70864, 70873), (71248, 71257), (71360, 71369), (71472, 71481),
      (71904, 71913), (72016, 72025), (72784, 72793), (73040, 73049), (73120, 73129),
      (92768, 92777), (92864, 92873), (93008, 93017), (120782, 120831),
      (123200, 123209), (123632, 123641), (125264, 125273), (130032, 130041)]"

definition is_digit :: "nat \<Rightarrow> bool" where
  "is_digit c = list_ex (\<lambda>(first, last). first \<le> c \<and> c \<le> last) unicode_decimal_digits"

text \<open>
  Regular expressions as far as the timestamp pattern needs them: a character set (\<open>\d\<close>
  or one literal character), sequence, alternative, option, repetition of a character
  set, negative lookahead and \<open>$\<close>, which holds at the end of the string and before a
  newline that ends the string. \<open>rx_rests r s\<close> lists what can remain of \<open>s\<close> after \<open>r\<close>
  has matched a prefix of it, in the order a backtracking matcher tries them.
\<close>

datatype cset = Digits | Only nat

fun in_cset :: "nat \<Rightarrow> cset \<Rightarrow> bool" where
  "in_cset c Digits = is_digit c"
| "in_cset c (Only d) = (c = d)"

datatype rx =
    Eps
  | Sym cset
  | Seq rx rx
  | Alt rx rx
  | Opt rx
  | Star cset
  | NotAhead rx
  | Dollar

fun star_rests :: "cset \<Rightarrow> pystr \<Rightarrow> pystr list" where
  "star_rests cs [] = [[]]"
| "star_rests cs (c # s) = (if in_cset c cs then star_rests cs s @ [c # s] else [c # s])"

fun rx_rests :: "rx \<Rightarrow> pystr \<Rightarrow> pystr list" where
  "rx_rests Eps s = [s]"
| "rx_rests (Sym cs) s = (case s of [] \<Rightarrow> [] | c # r \<Rightarrow> if in_cset c cs then [r] else [])"
| "rx_rests (Seq a b) s = concat (map (rx_rests b) (rx_rests a s))"
| "rx_rests (Alt a b) s = rx_rests a s @ rx_rests b s"
| "rx_rests (Opt a) s = rx_rests a s @ [s]"
| "rx_rests (Star cs) s = star_rests cs s"
| "rx_rests (NotAhead a) s = (if rx_rests a s = [] then [s] else [])"
| "rx_rests Dollar s = (if s = [] \<or> s = [10] then [s] else [])"

definition seqs :: "rx list \<Rightarrow> rx" where
  "seqs rs = foldr Seq rs Eps"

definition lit :: "string \<Rightarrow> rx" where
  "lit s = seqs (map (\<lambda>c. Sym (Only (of_char c))) s)"

definition digits :: "nat \<Rightarrow> rx" where
  "digits n = seqs (replicate n (Sym Digits))"

text \<open>
  The pattern of \<open>is_valid_data_field\<close>, group by group:
  \<open>^(\d{4})-(\d{2})-(\d{2})T(\d{2}):(\d{2}):(\d{2}(?:\.\d*)?)(((?!-00:00)(\+|-)(\d{2}):(\d{2})|Z){1})$\<close>.
  The leading \<open>^\<close> is the anchoring of \<open>iso8601_search\<close> below.
\<close>

definition iso8601 :: rx where
  "iso8601 =
     seqs [digits 4, lit ''-'', digits 2, lit ''-'', digits 2, lit ''T'',
           digits 2, lit '':'', digits 2, lit '':'',
           Seq (digits 2) (Opt (Seq (lit ''.'') (Star Digits))),
           Alt (seqs [NotAhead (lit ''-00:00''), Alt (lit ''+'') (lit ''-''),
                      digits 2, lit '':'', digits 2])
               (lit ''Z''),
           Dollar]"

text \<open>
  \<open>iso8601.search(value)\<close> is not \<open>None\<close>: the pattern starts with \<open>^\<close> and is compiled
  without flags, so a match can only start at the first character.
\<close>

definition iso8601_search :: "pystr \<Rightarrow> bool" where
  "iso8601_search s = (rx_rests iso8601 s \<noteq> [])"

text \<open>
  \<open>iso8601.search(value)\<close> on a value of the dictionary: \<open>search\<close> takes a \<open>str\<close> and
  raises TypeError on anything else.
\<close>

fun re_search_iso8601 :: "pyvalue \<Rightarrow> error + bool" where
  "re_search_iso8601 (Scalar (PyStr s)) = Inr (iso8601_search s)"
| "re_search_iso8601 (Scalar (NpStr s)) = Inr (iso8601_search s)"
| "re_search_iso8601 _ = Inl TypeError"

text \<open>
  \<open>is_valid_data_field\<close>. The three \<open>raise Exception(...)\<close> are the errors the
  specification calls TypeMismatchError, RangeError and FormatError, each with the path
  of its message; a declared type that is not a key of the table raises KeyError.
\<close>

definition is_valid_data_field :: "pyvalue \<Rightarrow> string \<Rightarrow> string \<Rightarrow> error + unit" where
  "is_valid_data_field v nxdl_type path =
     (case map_of NEXUS_TO_PYTHON_DATA_TYPES nxdl_type of
        None \<Rightarrow> Inl (KeyError nxdl_type)
      | Some accepted_types \<Rightarrow>
          if \<not> is_valid_data_type v accepted_types then Inl (TypeMismatchError path)
          else
            (case (if nxdl_type = ''NX_POSINT'' then is_positive_int v else Inr True) of
               Inl e \<Rightarrow> Inl e
             | Inr positive \<Rightarrow>
                 if \<not> positive then Inl (RangeError path)
                 else if nxdl_type = ''ISO8601'' \<or> nxdl_type = ''NX_DATE_TIME''
                 then (case re_search_iso8601 v of
                         Inl e \<Rightarrow> Inl e
                       | Inr found \<Rightarrow> if found then Inr () else Inl (FormatError path))
                 else Inr ()))"

subsection \<open>The timestamp pattern as the specification words it\<close>

text \<open>
  \<open>YYYY-MM-DDTHH:MM:SS[.fraction](Z|\<plusminus>HH:MM)\<close>, where the offset \<open>-00:00\<close> is rejected.
\<close>

definition all_digits :: "nat \<Rightarrow> pystr \<Rightarrow> bool" where
  "all_digits n ds = (length ds = n \<and> list_all is_digit ds)"

definition spec_fraction :: "pystr \<Rightarrow> bool" where
  "spec_fraction fraction =
     (fraction = [] \<or> (\<exists>f. fraction = ustr ''.'' @ f \<and> list_all is_digit f))"

definition spec_signed_offset :: "pystr \<Rightarrow> bool" where
  "spec_signed_offset z =
     (\<exists>sign hh mm. z = sign @ hh @ ustr '':'' @ mm \<and> (sign = ustr ''+'' \<or> sign = ustr ''-'') \<and>
         all_digits 2 hh \<and> all_digits 2 mm)"

definition spec_utc_offset :: "pystr \<Rightarrow> bool" where
  "spec_utc_offset z = (z = ustr ''Z'' \<or> (spec_signed_offset z \<and> z \<noteq> ustr ''-00:00''))"

definition spec_timestamp :: "pystr \<Rightarrow> bool" where
  "spec_timestamp s =
     (\<exists>YYYY MM DD hh mm ss fraction z.
        s = YYYY @ ustr ''-'' @ MM @ ustr ''-'' @ DD @ ustr ''T'' @ hh @ ustr '':'' @ mm @
            ustr '':'' @ ss @ fraction @ z \<and>
        all_digits 4 YYYY \<and> all_digits 2 MM \<and> all_digits 2 DD \<and>
        all_digits 2 hh \<and> all_digits 2 mm \<and> all_digits 2 ss \<and>
        spec_fraction fraction \<and> spec_utc_offset z)"

text \<open>
  Notions for the proof that the pattern and the specification's wording agree: a
  pattern matches exactly the words of a predicate, the concatenation of two such
  predicates, and the parts of the pattern by name.
\<close>

definition matches_words :: "rx \<Rightarrow> (pystr \<Rightarrow> bool) \<Rightarrow> bool" where
  "matches_words r P = (\<forall>s t. t \<in> set (rx_rests r s) \<longleftrightarrow> (\<exists>w. s = w @ t \<and> P w))"

definition conc :: "(pystr \<Rightarrow> bool) \<Rightarrow> (pystr \<Rightarrow> bool) \<Rightarrow> pystr \<Rightarrow> bool" where
  "conc P Q w = (\<exists>u v. w = u @ v \<and> P u \<and> Q v)"

definition offset_rx :: rx where
  "offset_rx = seqs [Alt (lit ''+'') (lit ''-''), digits 2, lit '':'', digits 2]"

definition tz_rx :: rx where
  "tz_rx = Alt (seqs [NotAhead (lit ''-00:00''), Alt (lit ''+'') (lit ''-''),
                      digits 2, lit '':'', digits 2])
               (lit ''Z'')"

definition front :: "rx list" where
  "front = [digits 4, lit ''-'', digits 2, lit ''-'', digits 2, lit ''T'',
           digits 2, lit '':'', digits 2, lit '':'',
           Seq (digits 2) (Opt (Seq (lit ''.'') (Star Digits))), tz_rx]"

section \<open>Validation of a data dictionary (dataconverter/helpers.py)\<close>

text \<open>
  \<open>helpers.py\<close> imports the module \<open>nexusparser.tools.nexus\<close>, which is not among the
  source files. The three functions it uses from that module are the fields of this
  record: the schema node at a schema path below a root (or \<open>None\<close>), the requiredness
  string of a node (\<open>get_required_string\<close> of \<open>read_nexus.py\<close> is such a function), and
  the enumeration of a node (whether it has one, and its entries).
\<close>

record nexus_module =
  nexus_get_node_at_nxdl_path :: "string \<Rightarrow> node \<Rightarrow> node option"
  nexus_get_required_string :: "node option \<Rightarrow> string"
  nexus_get_enums :: "node \<Rightarrow> bool \<times> pystr list"

text \<open>The strings of a numpy array whose elements are all strings.\<close>

fun np_str_elements :: "pyscalar list \<Rightarrow> pystr list option" where
  "np_str_elements [] = Some []"
| "np_str_elements (NpStr t # xs) = map_option ((#) t) (np_str_elements xs)"
| "np_str_elements (x # xs) = None"

text \<open>
  \<open>bool(entry == value)\<close> for a string \<open>entry\<close>. A string equals a \<open>str\<close> of the same
  characters and no scalar of another class. With a numpy array the comparison is
  numpy's: an array of strings is compared element by element, and the truth value of
  the resulting array is that of its element when it has one and raises ValueError
  (the truth value of an array with more than one element is ambiguous) when it has
  more. For an empty array and for an array of other elements the outcome depends on the
  version of numpy; it is the parameter \<open>ndarray_eq\<close>, from the elements of the array
  and the string.
\<close>

fun py_eq_str ::
  "(pyscalar list \<Rightarrow> pystr \<Rightarrow> error + bool) \<Rightarrow> pyvalue \<Rightarrow> pystr \<Rightarrow> error + bool" where
  "py_eq_str ndarray_eq (Scalar (PyStr t)) entry = Inr (t = entry)"
| "py_eq_str ndarray_eq (Scalar (NpStr t)) entry = Inr (t = entry)"
| "py_eq_str ndarray_eq (Scalar x) entry = Inr False"
| "py_eq_str ndarray_eq (PyList objs) entry = Inr False"
| "py_eq_str ndarray_eq (NdArray chararray xs) entry =
     (case np_str_elements xs of
        Some [t] \<Rightarrow> Inr (t = entry)
      | Some (t # u # ts) \<Rightarrow> Inl ValueError
      | _ \<Rightarrow> ndarray_eq xs entry)"

text \<open>\<open>value in entries\<close>: the entries are compared in order until one is equal.\<close>

fun py_in_strs ::
  "(pyscalar list \<Rightarrow> pystr \<Rightarrow> error + bool) \<Rightarrow> pyvalue \<Rightarrow> pystr list \<Rightarrow> error + bool"
  where
  "py_in_strs ndarray_eq v [] = Inr False"
| "py_in_strs ndarray_eq v (entry # entries) =
     (case py_eq_str ndarray_eq v entry of
        Inl e \<Rightarrow> Inl e
      | Inr eq \<Rightarrow> if eq then Inr True else py_in_strs ndarray_eq v entries)"

fun is_list :: "pyvalue \<Rightarrow> bool" where
  "is_list (PyList objs) = True"
| "is_list _ = False"

text \<open>
  \<open>is_value_valid_element_of_enum\<close>; \<open>enums[0:-1]\<close> is \<open>butlast enums\<close>, and the three
  disjuncts are evaluated from left to right.
\<close>

definition is_value_valid_element_of_enum ::
  "nexus_module \<Rightarrow> (pyscalar list \<Rightarrow> pystr \<Rightarrow> error + bool) \<Rightarrow> pyvalue \<Rightarrow> node option \<Rightarrow>
     error + (bool \<times> pystr list)" where
  "is_value_valid_element_of_enum nexus ndarray_eq v elem =
     (case elem of
        None \<Rightarrow> Inr (True, [])
      | Some el \<Rightarrow>
          (case nexus_get_enums nexus el of
             (has_enums, enums) \<Rightarrow>
               if \<not> has_enums then Inr (True, [])
               else if is_list v then Inr (False, enums)
               else (case py_in_strs ndarray_eq v (butlast enums) of
                       Inl e \<Rightarrow> Inl e
                     | Inr found \<Rightarrow>
                         if \<not> found then Inr (False, enums)
                         else (case py_eq_str ndarray_eq v [] of
                                 Inl e \<Rightarrow> Inl e
                               | Inr is_empty \<Rightarrow>
                                   if is_empty then Inr (False, enums) else Inr (True, [])))))"

text \<open>
  The data dictionary is an association list in the order of the dictionary, with
  \<open>Scalar PyNone\<close> for the value \<open>None\<close>; \<open>data[key]\<close> is \<open>map_of data key\<close>.
\<close>

type_synonym data_dict = "(string \<times> pyvalue) list"

fun path_in_data_dict :: "string \<Rightarrow> data_dict \<Rightarrow> bool \<times> string" where
  "path_in_data_dict nxdl_path [] = (False, [])"
| "path_in_data_dict nxdl_path ((key, v) # rest) =
     (if nxdl_path = convert_data_converter_dict_to_nxdl_path key then (True, key)
      else path_in_data_dict nxdl_path rest)"

text \<open>\<open>path.rsplit("/", 1)[0]\<close>: the path up to its last slash, or all of it.\<close>

definition rsplit_slash_head :: "string \<Rightarrow> string" where
  "rsplit_slash_head path =
     (if CHR ''/'' \<in> set path then rev (tl (dropWhile (\<lambda>c. c \<noteq> CHR ''/'') (rev path)))
      else path)"

text \<open>\<open>path[path.rindex('/') + 1:]\<close>, for a path with a slash.\<close>

definition after_last_slash :: "string \<Rightarrow> string" where
  "after_last_slash path = rev (takeWhile (\<lambda>c. c \<noteq> CHR ''/'') (rev path))"

lemma rsplit_slash_head_shorter:
  "CHR ''/'' \<in> set path \<Longrightarrow> length (rsplit_slash_head path) < length path"
proof -
  assume "CHR ''/'' \<in> set path"
  then have "dropWhile (\<lambda>c. c \<noteq> CHR ''/'') (rev path) \<noteq> []" by (simp add: dropWhile_eq_Nil_conv)
  moreover have "length (dropWhile (\<lambda>c. c \<noteq> CHR ''/'') (rev path)) \<le> length (rev path)"
    by (rule length_dropWhile_le)
  ultimately show ?thesis
    using \<open>CHR ''/'' \<in> set path\<close>
    by (cases "dropWhile (\<lambda>c. c \<noteq> CHR ''/'') (rev path)") (auto simp: rsplit_slash_head_def)
qed

text \<open>
  \<open>check_for_optional_parent\<close>. On a path without a slash \<open>rsplit\<close> returns the path
  itself, so the recursive call repeats its own arguments until Python's recursion
  limit raises RecursionError.
\<close>

function check_for_optional_parent :: "nexus_module \<Rightarrow> string \<Rightarrow> node \<Rightarrow> error + string" where
  "check_for_optional_parent nexus path nxdl_root =
     (let parent_path = rsplit_slash_head path in
      if parent_path = [] then Inr ''<<NOT_FOUND>>''
      else
        (let parent_nxdl_path = convert_data_converter_dict_to_nxdl_path parent_path;
             elem = nexus_get_node_at_nxdl_path nexus parent_nxdl_path nxdl_root in
         if nexus_get_required_string nexus elem = ''<<OPTIONAL>>'' \<or>
            nexus_get_required_string nexus elem = ''<<RECOMMENDED>>''
         then Inr parent_path
         else if CHR ''/'' \<notin> set path then Inl RecursionError
         else check_for_optional_parent nexus parent_path nxdl_root))"
  by pat_completeness auto
termination
  by (relation "measure (\<lambda>(nexus, path, nxdl_root). length path)")
     (auto simp: rsplit_slash_head_shorter)

declare check_for_optional_parent.simps [simp del]

definition check_are_children_set :: "string \<Rightarrow> data_dict \<Rightarrow> bool" where
  "check_are_children_set optional_parent_path data =
     (let parent = convert_data_converter_dict_to_nxdl_path optional_parent_path in
      list_ex (\<lambda>(key, v). str_in parent (convert_data_converter_dict_to_nxdl_path key) \<and>
                          map_of data key \<noteq> Some (Scalar PyNone))
              data)"

definition nxdl_type_of :: "node \<Rightarrow> string" where
  "nxdl_type_of elem =
     (case map_of (attrib elem) ''type'' of Some t \<Rightarrow> t | None \<Rightarrow> ''NXDL_TYPE_UNAVAILABLE'')"

text \<open>
  The body of the loop of \<open>validate_data_dict\<close> for one path of the template: \<open>Inr ()\<close>
  when the loop goes on to the next path. \<open>rindex\<close> raises ValueError on a path without
  a slash, \<open>entry_name[0]\<close> IndexError on an empty name, and \<open>elem.attrib\<close>
  AttributeError when the schema has no node for the path.
\<close>

definition validate_path ::
  "nexus_module \<Rightarrow> (pyscalar list \<Rightarrow> pystr \<Rightarrow> error + bool) \<Rightarrow> data_dict \<Rightarrow> node \<Rightarrow> string \<Rightarrow>
     error + unit" where
  "validate_path nexus ndarray_eq data nxdl_root path =
     (let nxdl_path = convert_data_converter_dict_to_nxdl_path path in
      case path_in_data_dict nxdl_path data of
        (is_path_in_data_dict, renamed_path) \<Rightarrow>
          if CHR ''/'' \<notin> set path then Inl ValueError
          else
            (case get_name_from_data_dict_entry (after_last_slash path) of
               [] \<Rightarrow> Inl IndexError
             | c # entry_name \<Rightarrow>
                 if c = CHR ''@'' then Inr ()
                 else
                   (let elem = nexus_get_node_at_nxdl_path nexus nxdl_path nxdl_root in
                    case (if nexus_get_required_string nexus elem = ''<<REQUIRED>>'' \<and>
                             (\<not> is_path_in_data_dict \<or>
                              map_of data renamed_path = Some (Scalar PyNone))
                          then (case check_for_optional_parent nexus path nxdl_root of
                                  Inl e \<Rightarrow> Inl e
                                | Inr optional_parent \<Rightarrow>
                                    if optional_parent = ''<<NOT_FOUND>>'' \<or>
                                       check_are_children_set optional_parent data
                                    then Inl (MissingRequiredFieldError
                                               (if renamed_path \<noteq> [] then renamed_path else path))
                                    else Inr ())
                          else Inr ()) of
                      Inl e \<Rightarrow> Inl e
                    | Inr u \<Rightarrow>
                        (case elem of
                           None \<Rightarrow> Inl AttributeError
                         | Some el \<Rightarrow>
                             if is_path_in_data_dict \<and>
                                map_of data renamed_path \<noteq> Some (Scalar PyNone)
                             then
                               (case map_of data renamed_path of
                                  None \<Rightarrow> Inl (KeyError renamed_path)
                                | Some v \<Rightarrow>
                                    (case is_valid_data_field v (nxdl_type_of el) renamed_path of
                                       Inl e \<Rightarrow> Inl e
                                     | Inr u \<Rightarrow>
                                         (case is_value_valid_element_of_enum nexus ndarray_eq
                                                 v elem of
                                            Inl e \<Rightarrow> Inl e
                                          | Inr (is_valid_enum, enums) \<Rightarrow>
                                              if \<not> is_valid_enum
                                              then Inl (EnumMismatchError renamed_path)
                                              else Inr ())))
                             else Inr ()))))"

fun validate_paths ::
  "nexus_module \<Rightarrow> (pyscalar list \<Rightarrow> pystr \<Rightarrow> error + bool) \<Rightarrow> data_dict \<Rightarrow> node \<Rightarrow>
     string list \<Rightarrow> error + bool" where
  "validate_paths nexus ndarray_eq data nxdl_root [] = Inr True"
| "validate_paths nexus ndarray_eq data nxdl_root (path # paths) =
     (case validate_path nexus ndarray_eq data nxdl_root path of
        Inl e \<Rightarrow> Inl e
      | Inr u \<Rightarrow> validate_paths nexus ndarray_eq data nxdl_root paths)"

text \<open>\<open>validate_data_dict\<close>; the loop runs over the keys of the template.\<close>

definition validate_data_dict ::
  "nexus_module \<Rightarrow> (pyscalar list \<Rightarrow> pystr \<Rightarrow> error + bool) \<Rightarrow> data_dict \<Rightarrow> data_dict \<Rightarrow>
     node option \<Rightarrow> error + bool" where
  "validate_data_dict nexus ndarray_eq template data nxdl_root =
     (case nxdl_root of
        None \<Rightarrow> Inl SchemaNotLoadedError
      | Some root_elem \<Rightarrow> validate_paths nexus ndarray_eq data root_elem (map fst template))"

subsection \<open>The optional-ancestor rule as the specification words it\<close>

text \<open>
  The ancestors of a template path, nearest first: one trailing segment is stripped at a
  time until no parent is left.
\<close>

function ancestor_paths :: "string \<Rightarrow> string list" where
  "ancestor_paths path =
     (if CHR ''/'' \<notin> set path \<or> rsplit_slash_head path = [] then []
      else rsplit_slash_head path # ancestor_paths (rsplit_slash_head path))"
  by pat_completeness auto
termination
  by (relation "measure length") (auto simp: rsplit_slash_head_shorter)

declare ancestor_paths.simps [simp del]

text \<open>An ancestor is classified OPTIONAL or RECOMMENDED.\<close>

definition classified_optional :: "nexus_module \<Rightarrow> node \<Rightarrow> string \<Rightarrow> bool" where
  "classified_optional nexus nxdl_root p =
     (nexus_get_required_string nexus
        (nexus_get_node_at_nxdl_path nexus (convert_data_converter_dict_to_nxdl_path p)
           nxdl_root)
      \<in> {''<<OPTIONAL>>'', ''<<RECOMMENDED>>''})"

definition nearest_optional_ancestor :: "nexus_module \<Rightarrow> node \<Rightarrow> string \<Rightarrow> string option"
  where
  "nearest_optional_ancestor nexus nxdl_root path =
     find (classified_optional nexus nxdl_root) (ancestor_paths path)"

text \<open>
  A key of the data is a populated descendant of a path: its value is not \<open>None\<close>, and in
  schema notation it continues the path by a slash and further segments.
\<close>

definition has_populated_descendant :: "string \<Rightarrow> data_dict \<Rightarrow> bool" where
  "has_populated_descendant p data =
     list_ex (\<lambda>(key, v). map_of data key \<noteq> Some (Scalar PyNone) \<and>
                startswith (convert_data_converter_dict_to_nxdl_path key)
                           (convert_data_converter_dict_to_nxdl_path p @ ''/''))
             data"

text \<open>No populated key of the data mentions the path anywhere in its schema path.\<close>

definition no_populated_mention :: "string \<Rightarrow> data_dict \<Rightarrow> bool" where
  "no_populated_mention p data =
     list_all (\<lambda>(key, v). map_of data key = Some (Scalar PyNone) \<or>
                 \<not> str_in (convert_data_converter_dict_to_nxdl_path p)
                          (convert_data_converter_dict_to_nxdl_path key))
              data"

subsection \<open>A schema with a required field below an optional group\<close>

text \<open>
  The schema of the specification's example: \<open>/ENTRY\<close> is required, \<open>/ENTRY/instrument\<close>
  is optional and holds the required field \<open>sample\<close> and the field \<open>name\<close>; \<open>/ENTRY\<close> has
  the required field \<open>title\<close> and the attribute \<open>version\<close>, declared without an
  optionality attribute.
\<close>

definition ex_field :: "string \<Rightarrow> (string \<times> string) list \<Rightarrow> node" where
  "ex_field name attrs = Node ''field'' ((''name'', name) # attrs) ex_app_file None []"

definition ex_schema :: "string \<Rightarrow> node \<Rightarrow> node option" where
  "ex_schema nxdl_path nxdl_root =
     (if nxdl_path = ''/ENTRY'' then Some ex_entry
      else if nxdl_path = ''/ENTRY/title'' then Some ex_title
      else if nxdl_path = ''/ENTRY/@version''
      then Some (Node ''attribute'' [(''name'', ''version'')] ex_app_file None [])
      else if nxdl_path = ''/ENTRY/instrument''
      then Some (Node ''group'' [(''type'', ''NXinstrument''), (''optional'', ''true'')]
                   ex_app_file None [ex_field ''sample'' [], ex_field ''name'' []])
      else if nxdl_path = ''/ENTRY/instrument/sample'' then Some (ex_field ''sample'' [])
      else if nxdl_path = ''/ENTRY/instrument/name'' then Some (ex_field ''name'' [])
      else None)"

definition ex_nexus :: nexus_module where
  "ex_nexus =
     \<lparr>nexus_get_node_at_nxdl_path = ex_schema,
      nexus_get_required_string = get_required_string,
      nexus_get_enums = (\<lambda>elem. (False, []))\<rparr>"

definition ex_ndarray_eq :: "pyscalar list \<Rightarrow> pystr \<Rightarrow> error + bool" where
  "ex_ndarray_eq xs entry = Inl ValueError"

section \<open>Path conversions\<close>

lemma split_slash_not_Nil: "split_slash p \<noteq> []"
  by (induction p) (auto split: list.splits)

lemma split_slash_snoc_slash: "split_slash (p @ ''/'') = split_slash p @ [[]]"
proof (induction p)
  case Nil
  show ?case by simp
next
  case (Cons c cs)
  obtain s ss where "split_slash cs = s # ss"
    using split_slash_not_Nil [of cs] by (cases "split_slash cs") auto
  with Cons show ?case by simp
qed

lemma foldl_segments:
  "foldl (\<lambda>acc entry. acc @ ''/'' @ f entry) a xs = a @ concat (map (\<lambda>e. ''/'' @ f e) xs)"
  by (induction xs arbitrary: a) simp_all

lemma nxdl_path_concat:
  "convert_data_converter_dict_to_nxdl_path p =
     concat (map (\<lambda>e. ''/'' @ convert_data_converter_entry_to_nxdl_path_entry e)
                 (tl (split_slash p)))"
  unfolding convert_data_converter_dict_to_nxdl_path_def foldl_segments by simp

lemma hdf5_path_concat:
  "convert_data_dict_path_to_hdf5_path p =
     concat (map (\<lambda>e. ''/'' @ get_name_from_data_dict_entry e) (tl (split_slash p)))"
  unfolding convert_data_dict_path_to_hdf5_path_def foldl_segments by simp

lemma tl_split_slash_snoc: "tl (split_slash (p @ ''/'')) = tl (split_slash p) @ [[]]"
  using split_slash_not_Nil [of p] by (simp add: split_slash_snoc_slash)

text \<open>
  C9 (as stated, refuted): the claim says that the two conversions fail with
  MalformedPathError on an empty path and on a path with a trailing slash. Neither
  function has a raise statement or a partial operation: on the empty path both return
  the empty string, and on \<open>/ENTRY[entry]/\<close> they return \<open>/ENTRY/\<close> and \<open>/entry/\<close>.
\<close>

theorem path_conversion_malformed_counterexample:
  "convert_data_converter_dict_to_nxdl_path '''' = '''' \<and>
   convert_data_dict_path_to_hdf5_path '''' = '''' \<and>
   convert_data_converter_dict_to_nxdl_path ''/ENTRY[entry]/'' = ''/ENTRY/'' \<and>
   convert_data_dict_path_to_hdf5_path ''/ENTRY[entry]/'' = ''/entry/''"
  by (simp add: convert_data_converter_dict_to_nxdl_path_def
      convert_data_dict_path_to_hdf5_path_def
      convert_data_converter_entry_to_nxdl_path_entry_def get_name_from_data_dict_entry_def)

text \<open>
  C9 (amended): both conversions are total functions on strings, with no exception path
  at all. The empty path is converted to the empty string, and appending a slash to any
  path appends a slash to its conversion, so a trailing slash is kept in the result
  instead of being reported.
\<close>

theorem path_conversions_never_fail:
  "convert_data_converter_dict_to_nxdl_path [] = [] \<and>
   convert_data_dict_path_to_hdf5_path [] = [] \<and>
   convert_data_converter_dict_to_nxdl_path (p @ ''/'') =
     convert_data_converter_dict_to_nxdl_path p @ ''/'' \<and>
   convert_data_dict_path_to_hdf5_path (p @ ''/'') =
     convert_data_dict_path_to_hdf5_path p @ ''/''"
  by (simp add: nxdl_path_concat hdf5_path_concat tl_split_slash_snoc
      convert_data_converter_entry_to_nxdl_path_entry_def get_name_from_data_dict_entry_def)


section \<open>Requiredness\<close>

lemma startswith_iff: "startswith s p \<longleftrightarrow> (\<exists>v. s = p @ v)"
  by (induction s p rule: startswith.induct) auto

lemma str_in_iff: "str_in sub s \<longleftrightarrow> (\<exists>u v. s = u @ sub @ v)"
proof (induction s)
  case Nil
  show ?case by auto
next
  case (Cons c cs)
  show ?case
  proof
    assume "str_in sub (c # cs)"
    then consider "startswith (c # cs) sub" | "str_in sub cs" by auto
    then show "\<exists>u v. c # cs = u @ sub @ v"
    proof cases
      case 1
      then obtain v where "c # cs = sub @ v" by (auto simp: startswith_iff)
      then have "c # cs = [] @ sub @ v" by simp
      then show ?thesis by blast
    next
      case 2
      with Cons obtain u v where "cs = u @ sub @ v" by auto
      then have "c # cs = (c # u) @ sub @ v" by simp
      then show ?thesis by blast
    qed
  next
    assume "\<exists>u v. c # cs = u @ sub @ v"
    then obtain u v where uv: "c # cs = u @ sub @ v" by blast
    show "str_in sub (c # cs)"
    proof (cases u)
      case Nil
      with uv have "startswith (c # cs) sub" by (auto simp: startswith_iff)
      then show ?thesis by simp
    next
      case (Cons a u')
      with uv have "cs = u' @ sub @ v" by simp
      with Cons.IH have "str_in sub cs" by blast
      then show ?thesis by simp
    qed
  qed
qed

text \<open>
  C2: \<open>get_required_string\<close> always returns one of the four classification strings, and
  follows the rules in order, first match wins: no node gives NOT IN SCHEMA;
  \<open>optional="true"\<close> or \<open>minOccurs="0"\<close> gives OPTIONAL; otherwise \<open>recommended="true"\<close>
  gives RECOMMENDED; otherwise a node of a document under \<open>base_classes\<close>, or one with
  \<open>required="false"\<close>, gives OPTIONAL; otherwise REQUIRED. In particular a node with none
  of the four optionality attributes is OPTIONAL in a base class and REQUIRED in an
  application definition.
\<close>

theorem get_required_string_rules:
  "get_required_string nxdlElem \<in>
     {''<<REQUIRED>>'', ''<<OPTIONAL>>'', ''<<RECOMMENDED>>'', ''<<NOT IN SCHEMA>>''} \<and>
   get_required_string None = ''<<NOT IN SCHEMA>>'' \<and>
   (map_of (attrib e) ''optional'' = Some ''true'' \<or> map_of (attrib e) ''minOccurs'' = Some ''0''
      \<longrightarrow> get_required_string (Some e) = ''<<OPTIONAL>>'') \<and>
   (map_of (attrib e) ''optional'' \<noteq> Some ''true'' \<and> map_of (attrib e) ''minOccurs'' \<noteq> Some ''0'' \<and>
    map_of (attrib e) ''recommended'' = Some ''true''
      \<longrightarrow> get_required_string (Some e) = ''<<RECOMMENDED>>'') \<and>
   (map_of (attrib e) ''optional'' \<noteq> Some ''true'' \<and> map_of (attrib e) ''minOccurs'' \<noteq> Some ''0'' \<and>
    map_of (attrib e) ''recommended'' \<noteq> Some ''true'' \<and>
    ((\<exists>u v. base e = u @ ''base_classes'' @ v) \<or> map_of (attrib e) ''required'' = Some ''false'')
      \<longrightarrow> get_required_string (Some e) = ''<<OPTIONAL>>'') \<and>
   (map_of (attrib e) ''optional'' \<noteq> Some ''true'' \<and> map_of (attrib e) ''minOccurs'' \<noteq> Some ''0'' \<and>
    map_of (attrib e) ''recommended'' \<noteq> Some ''true'' \<and>
    (\<nexists>u v. base e = u @ ''base_classes'' @ v) \<and> map_of (attrib e) ''required'' \<noteq> Some ''false''
      \<longrightarrow> get_required_string (Some e) = ''<<REQUIRED>>'') \<and>
   (map_of (attrib e) ''optional'' = None \<and> map_of (attrib e) ''minOccurs'' = None \<and>
    map_of (attrib e) ''recommended'' = None \<and> map_of (attrib e) ''required'' = None
      \<longrightarrow> get_required_string (Some e) =
            (if \<exists>u v. base e = u @ ''base_classes'' @ v then ''<<OPTIONAL>>''
             else ''<<REQUIRED>>''))"
  unfolding get_required_string_def str_in_iff
  by (simp split: option.split)

theorem get_required_string_rules_witness:
  "get_required_string (Some ex_title) = ''<<REQUIRED>>'' \<and>
   get_required_string (Some ex_bc_title) = ''<<OPTIONAL>>'' \<and>
   get_required_string
     (Some (Node ''field'' [(''name'', ''x''), (''minOccurs'', ''0'')] ex_app_file None []))
     = ''<<OPTIONAL>>'' \<and>
   get_required_string
     (Some (Node ''field'' [(''name'', ''x''), (''recommended'', ''true'')] ex_bc_file None []))
     = ''<<RECOMMENDED>>'' \<and>
   get_required_string
     (Some (Node ''field'' [(''name'', ''x''), (''required'', ''false'')] ex_app_file None []))
     = ''<<OPTIONAL>>''"
proof -
  have app: "\<nexists>u v. ex_app_file = u @ ''base_classes'' @ v"
    unfolding str_in_iff [symmetric] by (simp add: ex_app_file_def)
  have bc: "\<exists>u v. ex_bc_file = u @ ''base_classes'' @ v"
    unfolding str_in_iff [symmetric] by (simp add: ex_bc_file_def)
  have "get_required_string (Some ex_title) = ''<<REQUIRED>>''"
    using get_required_string_rules [of None ex_title] app by (simp add: ex_title_def)
  moreover have "get_required_string (Some ex_bc_title) = ''<<OPTIONAL>>''"
    using get_required_string_rules [of None ex_bc_title] bc by (simp add: ex_bc_title_def)
  moreover have "get_required_string
     (Some (Node ''field'' [(''name'', ''x''), (''minOccurs'', ''0'')] ex_app_file None []))
     = ''<<OPTIONAL>>''"
    using get_required_string_rules
      [of None "Node ''field'' [(''name'', ''x''), (''minOccurs'', ''0'')] ex_app_file None []"]
    by simp
  moreover have "get_required_string
     (Some (Node ''field'' [(''name'', ''x''), (''recommended'', ''true'')] ex_bc_file None []))
     = ''<<RECOMMENDED>>''"
    using get_required_string_rules
      [of None "Node ''field'' [(''name'', ''x''), (''recommended'', ''true'')] ex_bc_file None []"]
    by simp
  moreover have "get_required_string
     (Some (Node ''field'' [(''name'', ''x''), (''required'', ''false'')] ex_app_file None []))
     = ''<<OPTIONAL>>''"
    using get_required_string_rules
      [of None "Node ''field'' [(''name'', ''x''), (''required'', ''false'')] ex_app_file None []"]
    by simp
  ultimately show ?thesis by blast
qed

section \<open>Child resolution\<close>

text \<open>
  C3 (the code at the failing input): the application definition's group has an own
  child \<open>title\<close>, and \<open>get_own_nxdl_child\<close> finds it. The child has neither children nor
  text, so \<open>if ownChild:\<close> is false; \<open>get_nxdl_child\<close> opens the base-class document
  NXentry and returns the base class's field instead, which classifies OPTIONAL where
  the application's own field classifies REQUIRED.
\<close>

theorem get_nxdl_child_childless_own_child:
  "get_own_nxdl_child ex_entry ''title'' = Inr (Some ex_title) \<and>
   get_nxdl_child text_truth ex_documents ex_entry ''title'' =
     ([''definitions/base_classes/NXentry.nxdl.xml''], Inr (Some ex_bc_title)) \<and>
   ex_bc_title \<noteq> ex_title \<and>
   get_required_string (Some ex_title) = ''<<REQUIRED>>'' \<and>
   get_required_string (Some ex_bc_title) = ''<<OPTIONAL>>''"
  by (simp add: get_nxdl_child_def get_own_nxdl_child_def get_nx_class_def belongs_to_def
      elem_truth_def ex_entry_def ex_title_def ex_bc_title_def ex_bc_root_def
      ex_documents_def ex_bc_file_def ex_app_file_def get_required_string_def Let_def)

section \<open>Type and value checks\<close>

lemma type_table_keys:
  "map_of NEXUS_TO_PYTHON_DATA_TYPES ''NX_POSINT'' = Some [Py_int, Np_ndarray, Np_signedinteger]"
  by (simp add: NEXUS_TO_PYTHON_DATA_TYPES_def)





text \<open>
  C5: on a numpy array the NX_POSINT check reads the first element in flattened order
  and nothing else: the result for \<open>x # xs\<close> is that of \<open>x\<close>, whatever \<open>xs\<close> holds. The
  scalar 0 fails with RangeError, the scalar 1 passes, and an array whose first element
  is 5 passes whatever follows.
\<close>

theorem posint_first_flattened_element:
  "is_positive_int (NdArray chararray (x # xs)) = scalar_gt_zero x \<and>
   is_valid_data_field (Scalar (PyInt 0)) ''NX_POSINT'' path = Inl (RangeError path) \<and>
   is_valid_data_field (Scalar (PyInt 1)) ''NX_POSINT'' path = Inr () \<and>
   is_valid_data_field (NdArray chararray (NpSigned bits 5 # xs)) ''NX_POSINT'' path = Inr ()"
  by (simp add: is_valid_data_field_def type_table_keys is_valid_data_type_def isinstance_def
      is_positive_int_def)

text \<open>
  C10: for each of the eight NeXus types whose accepted classes include \<open>np.ndarray\<close>,
  the type check accepts every numpy array, whatever its elements are.
\<close>

theorem ndarray_passes_type_check:
  "nxdl_type \<in> {''NX_BINARY'', ''NX_BOOLEAN'', ''NX_CHAR'', ''NX_FLOAT'', ''NX_INT'', ''NX_UINT'',
                 ''NX_NUMBER'', ''NX_POSINT''} \<Longrightarrow>
   \<exists>accepted_types. map_of NEXUS_TO_PYTHON_DATA_TYPES nxdl_type = Some accepted_types \<and>
     Np_ndarray \<in> set accepted_types \<and>
     is_valid_data_type (NdArray chararray xs) accepted_types"
  by (auto simp: NEXUS_TO_PYTHON_DATA_TYPES_def is_valid_data_type_def isinstance_def)

theorem ndarray_passes_type_check_witness:
  "is_valid_data_type (NdArray False [NpStr (ustr ''a''), NpStr (ustr ''b'')]) [Py_float, Np_ndarray, Np_floating] \<and>
   map_of NEXUS_TO_PYTHON_DATA_TYPES ''NX_FLOAT'' = Some [Py_float, Np_ndarray, Np_floating] \<and>
   is_valid_data_field (NdArray False [NpStr (ustr ''a''), NpStr (ustr ''b'')]) ''NX_FLOAT'' ''/ENTRY[entry]/x'' = Inr ()"
proof -
  have k: "map_of NEXUS_TO_PYTHON_DATA_TYPES ''NX_FLOAT'' = Some [Py_float, Np_ndarray, Np_floating]"
    by (simp add: NEXUS_TO_PYTHON_DATA_TYPES_def)
  from ndarray_passes_type_check [of "''NX_FLOAT''" False "[NpStr (ustr ''a''), NpStr (ustr ''b'')]"]
  have t: "is_valid_data_type (NdArray False [NpStr (ustr ''a''), NpStr (ustr ''b'')])
            [Py_float, Np_ndarray, Np_floating]"
    unfolding k by simp
  with k show ?thesis by (simp add: is_valid_data_field_def)
qed

lemma scalar_gt_zero_error: "scalar_gt_zero x = Inl e \<Longrightarrow> e = TypeError"
  by (cases x) auto

lemma is_greater_than_error:
  "is_greater_than v = Inl e \<Longrightarrow> e = TypeError \<or> e = IndexError"
  by (cases v rule: is_greater_than.cases) (auto dest: scalar_gt_zero_error)

lemma check_all_children_error:
  "check_all_children_for_callable objs is_greater_than = Inl e \<Longrightarrow>
     e = TypeError \<or> e = IndexError"
proof (induction objs)
  case Nil
  then show ?case by simp
next
  case (Cons obj objs)
  then show ?case
    by (auto split: sum.splits if_splits dest: is_greater_than_error)
qed

lemma is_positive_int_error:
  assumes "is_positive_int v = Inl e"
  shows "e = TypeError \<or> e = IndexError"
proof (cases v)
  case (PyList objs)
  with assms show ?thesis by (simp add: is_positive_int_def check_all_children_error)
next
  case (Scalar x)
  with assms have "is_greater_than v = Inl e" by (simp add: is_positive_int_def)
  then show ?thesis by (rule is_greater_than_error)
next
  case (NdArray c xs)
  with assms have "is_greater_than v = Inl e" by (simp add: is_positive_int_def)
  then show ?thesis by (rule is_greater_than_error)
qed

lemma re_search_iso8601_error: "re_search_iso8601 v = Inl e \<Longrightarrow> e = TypeError"
  by (cases v rule: re_search_iso8601.cases) auto

lemma is_valid_data_field_errors:
  assumes "is_valid_data_field v nxdl_type path = Inl e"
    and "map_of NEXUS_TO_PYTHON_DATA_TYPES nxdl_type = Some accepted_types"
    and "is_valid_data_type v accepted_types"
  shows "e = RangeError path \<or> e = FormatError path \<or> e = TypeError \<or> e = IndexError"
  using assms unfolding is_valid_data_field_def
  by (auto split: sum.splits if_splits
      dest: is_positive_int_error re_search_iso8601_error)

text \<open>
  C8 (amended): a declared type that is not a key of the table raises KeyError, whatever
  the value is. TypeMismatchError is raised exactly when the declared type is a key of
  the table and the value (or an element of a list value) is of none of its accepted
  classes. Only a node without a \<open>type\<close> attribute is checked as a string, under the key
  NXDL_TYPE_UNAVAILABLE: a string passes and an integer is a type mismatch.
\<close>

theorem declared_type_lookup:
  "(map_of NEXUS_TO_PYTHON_DATA_TYPES nxdl_type = None \<longrightarrow>
      is_valid_data_field v nxdl_type path = Inl (KeyError nxdl_type)) \<and>
   (is_valid_data_field v nxdl_type path = Inl (TypeMismatchError path) \<longleftrightarrow>
      (\<exists>accepted_types. map_of NEXUS_TO_PYTHON_DATA_TYPES nxdl_type = Some accepted_types \<and>
         \<not> is_valid_data_type v accepted_types)) \<and>
   (map_of (attrib elem) ''type'' = None \<longrightarrow> nxdl_type_of elem = ''NXDL_TYPE_UNAVAILABLE'') \<and>
   is_valid_data_field (Scalar (PyStr s)) ''NXDL_TYPE_UNAVAILABLE'' path = Inr () \<and>
   is_valid_data_field (Scalar (PyInt i)) ''NXDL_TYPE_UNAVAILABLE'' path =
     Inl (TypeMismatchError path)"
proof (intro conjI impI)
  show "is_valid_data_field v nxdl_type path = Inl (TypeMismatchError path) \<longleftrightarrow>
      (\<exists>accepted_types. map_of NEXUS_TO_PYTHON_DATA_TYPES nxdl_type = Some accepted_types \<and>
         \<not> is_valid_data_type v accepted_types)"
  proof (cases "map_of NEXUS_TO_PYTHON_DATA_TYPES nxdl_type")
    case None
    then show ?thesis by (simp add: is_valid_data_field_def)
  next
    case (Some accepted_types)
    show ?thesis
    proof (cases "is_valid_data_type v accepted_types")
      case False
      with Some show ?thesis by (simp add: is_valid_data_field_def)
    next
      case True
      have "is_valid_data_field v nxdl_type path \<noteq> Inl (TypeMismatchError path)"
        using is_valid_data_field_errors [OF _ Some True] by auto
      with Some True show ?thesis by simp
    qed
  qed
qed (simp_all add: is_valid_data_field_def NEXUS_TO_PYTHON_DATA_TYPES_def nxdl_type_of_def
      is_valid_data_type_def isinstance_def)

theorem declared_type_lookup_witness:
  "is_valid_data_field (Scalar (PyStr (ustr ''abc''))) ''NX_COMPLEX'' ''/ENTRY[entry]/x'' =
     Inl (KeyError ''NX_COMPLEX'') \<and>
   nxdl_type_of ex_title = ''NXDL_TYPE_UNAVAILABLE'' \<and>
   is_valid_data_field (Scalar (PyStr (ustr ''Run 1''))) (nxdl_type_of ex_title) ''/ENTRY[entry]/title''
     = Inr ()"
proof -
  have none: "map_of NEXUS_TO_PYTHON_DATA_TYPES ''NX_COMPLEX'' = None"
    by (simp add: NEXUS_TO_PYTHON_DATA_TYPES_def)
  have untyped: "map_of (attrib ex_title) ''type'' = None"
    by (simp add: ex_title_def)
  from declared_type_lookup
    [of "''NX_COMPLEX''" "Scalar (PyStr (ustr ''abc''))" "''/ENTRY[entry]/x''" ex_title]
    declared_type_lookup
    [of "''NX_COMPLEX''" "Scalar (PyStr (ustr ''abc''))" "''/ENTRY[entry]/title''" ex_title
      "ustr ''Run 1''"]
    none untyped
  show ?thesis by simp
qed


text \<open>
  C8 (as stated, refuted): the claim says that a declared type outside the table is
  treated as string-like, so that a string passes. Under the declared type NX_COMPLEX
  the string \<open>abc\<close> raises KeyError; it neither passes nor is a type mismatch.
\<close>

theorem unknown_declared_type_counterexample:
  "is_valid_data_field (Scalar (PyStr (ustr ''abc''))) ''NX_COMPLEX'' ''/ENTRY[entry]/x'' =
     Inl (KeyError ''NX_COMPLEX'')"
  by (simp add: is_valid_data_field_def NEXUS_TO_PYTHON_DATA_TYPES_def)

section \<open>The timestamp check\<close>

subsection \<open>What each part of the pattern matches\<close>

lemma concI: "P u \<Longrightarrow> Q v \<Longrightarrow> conc P Q (u @ v)"
  by (auto simp: conc_def)

lemma concE: "conc P Q w \<Longrightarrow> (\<And>u v. w = u @ v \<Longrightarrow> P u \<Longrightarrow> Q v \<Longrightarrow> R) \<Longrightarrow> R"
  by (auto simp: conc_def)

lemma seqs_Cons: "seqs (r # rs) = Seq r (seqs rs)"
  by (simp add: seqs_def)

lemma seqs_Nil: "seqs [] = Eps"
  by (simp add: seqs_def)

lemma matches_words_cong: "matches_words r P \<Longrightarrow> (\<And>w. P w = Q w) \<Longrightarrow> matches_words r Q"
  by (simp add: matches_words_def)

lemma matches_words_Eps: "matches_words Eps (\<lambda>w. w = [])"
  by (auto simp: matches_words_def)

lemma matches_words_Sym: "matches_words (Sym cs) (\<lambda>w. \<exists>c. w = [c] \<and> in_cset c cs)"
  by (auto simp: matches_words_def split: list.splits)

lemma matches_words_Seq:
  assumes "matches_words a P" and "matches_words b Q"
  shows "matches_words (Seq a b) (conc P Q)"
  unfolding matches_words_def conc_def
proof (intro allI iffI)
  fix s t
  assume "t \<in> set (rx_rests (Seq a b) s)"
  then obtain m where m: "m \<in> set (rx_rests a s)" and t: "t \<in> set (rx_rests b m)" by auto
  from m assms(1) obtain u where u: "s = u @ m" "P u" by (auto simp: matches_words_def)
  from t assms(2) obtain v where v: "m = v @ t" "Q v" by (auto simp: matches_words_def)
  from u v have "s = (u @ v) @ t" by simp
  with u v show "\<exists>w. s = w @ t \<and> (\<exists>u v. w = u @ v \<and> P u \<and> Q v)" by blast
next
  fix s t
  assume "\<exists>w. s = w @ t \<and> (\<exists>u v. w = u @ v \<and> P u \<and> Q v)"
  then obtain u v where uv: "s = u @ v @ t" "P u" "Q v" by auto
  from uv assms(1) have "v @ t \<in> set (rx_rests a s)" by (auto simp: matches_words_def)
  moreover from uv assms(2) have "t \<in> set (rx_rests b (v @ t))"
    by (auto simp: matches_words_def)
  ultimately show "t \<in> set (rx_rests (Seq a b) s)" by auto
qed

lemma matches_words_Alt:
  assumes "matches_words a P" and "matches_words b Q"
  shows "matches_words (Alt a b) (\<lambda>w. P w \<or> Q w)"
  using assms by (auto simp: matches_words_def)

lemma matches_words_Opt:
  assumes "matches_words a P"
  shows "matches_words (Opt a) (\<lambda>w. w = [] \<or> P w)"
  using assms by (auto simp: matches_words_def)

lemma matches_words_lit: "matches_words (lit w) (\<lambda>u. u = ustr w)"
proof (induction w)
  case Nil
  show ?case by (simp add: lit_def seqs_def ustr_def matches_words_Eps)
next
  case (Cons c w)
  have "lit (c # w) = Seq (Sym (Only (of_char c))) (lit w)" by (simp add: lit_def seqs_def)
  with matches_words_Seq [OF matches_words_Sym [of "Only (of_char c)"] Cons]
  show ?case by (auto elim!: matches_words_cong simp: conc_def ustr_def)
qed

lemma matches_words_digits: "matches_words (digits n) (all_digits n)"
proof (induction n)
  case 0
  show ?case
    by (auto simp: digits_def seqs_def all_digits_def
        intro: matches_words_cong [OF matches_words_Eps])
next
  case (Suc n)
  have "digits (Suc n) = Seq (Sym Digits) (digits n)" by (simp add: digits_def seqs_def)
  moreover have "conc (\<lambda>u. \<exists>c. u = [c] \<and> in_cset c Digits) (all_digits n) w
                 = all_digits (Suc n) w" for w
  proof (cases w)
    case Nil
    then show ?thesis by (simp add: all_digits_def conc_def)
  next
    case (Cons c v)
    show ?thesis
    proof
      assume "conc (\<lambda>u. \<exists>c. u = [c] \<and> in_cset c Digits) (all_digits n) w"
      then show "all_digits (Suc n) w" by (auto simp: all_digits_def conc_def)
    next
      assume "all_digits (Suc n) w"
      with Cons have "(\<exists>d. [c] = [d] \<and> in_cset d Digits)" and "all_digits n v"
        by (simp_all add: all_digits_def)
      then have "conc (\<lambda>u. \<exists>c. u = [c] \<and> in_cset c Digits) (all_digits n) ([c] @ v)"
        by (rule concI)
      with Cons show "conc (\<lambda>u. \<exists>c. u = [c] \<and> in_cset c Digits) (all_digits n) w" by simp
    qed
  qed
  ultimately show ?case
    using matches_words_Seq [OF matches_words_Sym [of Digits] Suc]
    by (auto elim!: matches_words_cong)
qed

lemma star_rests_iff:
  "t \<in> set (star_rests cs s) \<longleftrightarrow> (\<exists>w. s = w @ t \<and> list_all (\<lambda>c. in_cset c cs) w)"
proof (induction s)
  case Nil
  show ?case by auto
next
  case (Cons c s)
  show ?case
  proof (cases "in_cset c cs")
    case True
    have "(\<exists>w. c # s = w @ t \<and> list_all (\<lambda>c. in_cset c cs) w) \<longleftrightarrow>
          (t = c # s \<or> (\<exists>w. s = w @ t \<and> list_all (\<lambda>c. in_cset c cs) w))"
      using True by (auto simp: Cons_eq_append_conv)
    with True Cons show ?thesis by auto
  next
    case False
    then have "(\<exists>w. c # s = w @ t \<and> list_all (\<lambda>c. in_cset c cs) w) \<longleftrightarrow> t = c # s"
      by (auto simp: Cons_eq_append_conv)
    with False show ?thesis by auto
  qed
qed

lemma matches_words_Star: "matches_words (Star Digits) (list_all is_digit)"
  by (simp add: matches_words_def star_rests_iff)

lemma matches_words_fraction:
  "matches_words (Opt (Seq (lit ''.'') (Star Digits))) spec_fraction"
  using matches_words_Opt
    [OF matches_words_Seq [OF matches_words_lit [of "''.''"] matches_words_Star]]
  by (auto elim!: matches_words_cong simp: spec_fraction_def conc_def)

lemma matches_words_offset_rx: "matches_words offset_rx spec_signed_offset"
proof -
  note m = matches_words_Seq
    [OF matches_words_Alt [OF matches_words_lit [of "''+''"] matches_words_lit [of "''-''"]]
      matches_words_Seq [OF matches_words_digits [of 2]
        matches_words_Seq [OF matches_words_lit [of "'':''"]
          matches_words_Seq [OF matches_words_digits [of 2] matches_words_Eps]]]]
  show ?thesis
    unfolding offset_rx_def seqs_Cons seqs_Nil
  proof (rule matches_words_cong [OF m], rule iffI)
    fix w
    assume "conc (\<lambda>w. w = ustr ''+'' \<or> w = ustr ''-'')
             (conc (all_digits 2) (conc (\<lambda>u. u = ustr '':'')
               (conc (all_digits 2) (\<lambda>w. w = [])))) w"
    then show "spec_signed_offset w"
      unfolding spec_signed_offset_def by (elim concE) (simp, blast)
  next
    fix w
    assume "spec_signed_offset w"
    then obtain sign hh mm where w: "w = sign @ hh @ ustr '':'' @ mm @ []"
      and *: "sign = ustr ''+'' \<or> sign = ustr ''-''" "all_digits 2 hh" "all_digits 2 mm"
      by (auto simp: spec_signed_offset_def)
    show "conc (\<lambda>w. w = ustr ''+'' \<or> w = ustr ''-'')
             (conc (all_digits 2) (conc (\<lambda>u. u = ustr '':'')
               (conc (all_digits 2) (\<lambda>w. w = [])))) w"
      unfolding w using * by (intro concI) auto
  qed
qed

lemma spec_signed_offset_length: "spec_signed_offset z \<Longrightarrow> length z = 6"
  by (auto simp: spec_signed_offset_def all_digits_def ustr_def)

lemma tz_rx_alt: "tz_rx = Alt (Seq (NotAhead (lit ''-00:00'')) offset_rx) (lit ''Z'')"
  by (simp add: tz_rx_def offset_rx_def seqs_Cons)

lemma rx_rests_lit_empty: "rx_rests (lit w) s = [] \<longleftrightarrow> (\<nexists>r. s = ustr w @ r)"
proof -
  have "rx_rests (lit w) s = [] \<longleftrightarrow> (\<forall>t. t \<notin> set (rx_rests (lit w) s))"
    by (cases "rx_rests (lit w) s") auto
  also have "\<dots> \<longleftrightarrow> (\<nexists>r. s = ustr w @ r)"
    using matches_words_lit [of w] unfolding matches_words_def by blast
  finally show ?thesis .
qed

text \<open>The negative lookahead only ever rejects the offset \<open>-00:00\<close> itself.\<close>

lemma matches_words_tz: "matches_words tz_rx spec_utc_offset"
  unfolding matches_words_def
proof (intro allI)
  fix s t
  have off: "t \<in> set (rx_rests offset_rx s) \<longleftrightarrow> (\<exists>w. s = w @ t \<and> spec_signed_offset w)"
    using matches_words_offset_rx by (simp add: matches_words_def)
  have z: "t \<in> set (rx_rests (lit ''Z'') s) \<longleftrightarrow> s = ustr ''Z'' @ t"
    using matches_words_lit [of "''Z''"] by (simp add: matches_words_def)
  have "t \<in> set (rx_rests tz_rx s) \<longleftrightarrow>
        ((\<nexists>r. s = ustr ''-00:00'' @ r) \<and> (\<exists>w. s = w @ t \<and> spec_signed_offset w)) \<or>
        s = ustr ''Z'' @ t"
    unfolding tz_rx_alt using off z by (simp add: rx_rests_lit_empty)
  also have "\<dots> \<longleftrightarrow> (\<exists>w. s = w @ t \<and> spec_utc_offset w)"
  proof -
    have "w = ustr ''-00:00''"
      if "s = w @ t" "spec_signed_offset w" "s = ustr ''-00:00'' @ r" for w r
    proof -
      from that(2) have "length w = length (ustr ''-00:00'')"
        by (simp add: spec_signed_offset_length ustr_def)
      with that(1,3) show ?thesis by (metis append_eq_append_conv)
    qed
    then show ?thesis unfolding spec_utc_offset_def by blast
  qed
  finally show "t \<in> set (rx_rests tz_rx s) \<longleftrightarrow> (\<exists>w. s = w @ t \<and> spec_utc_offset w)" .
qed

lemma iso8601_front: "iso8601 = seqs (front @ [Dollar])"
  by (simp add: iso8601_def front_def tz_rx_def)

lemma set_rx_rests_seqs_append:
  "set (rx_rests (seqs (xs @ ys)) s) =
     (\<Union>m\<in>set (rx_rests (seqs xs) s). set (rx_rests (seqs ys) m))"
  by (induction xs arbitrary: s) (auto simp: seqs_Cons seqs_Nil)

lemma matches_words_front: "matches_words (seqs front) spec_timestamp"
proof -
  note d = matches_words_digits and l = matches_words_lit and sq = matches_words_Seq
  note m = sq [OF d [of 4] sq [OF l [of "''-''"] sq [OF d [of 2] sq [OF l [of "''-''"]
     sq [OF d [of 2] sq [OF l [of "''T''"] sq [OF d [of 2] sq [OF l [of "'':''"]
     sq [OF d [of 2] sq [OF l [of "'':''"]
     sq [OF sq [OF d [of 2] matches_words_fraction]
       sq [OF matches_words_tz matches_words_Eps]]]]]]]]]]]]
  show ?thesis
    unfolding front_def seqs_Cons seqs_Nil
  proof (rule matches_words_cong [OF m], rule iffI)
    fix w
    assume "conc (all_digits 4) (conc (\<lambda>u. u = ustr ''-'') (conc (all_digits 2)
      (conc (\<lambda>u. u = ustr ''-'') (conc (all_digits 2) (conc (\<lambda>u. u = ustr ''T'')
      (conc (all_digits 2) (conc (\<lambda>u. u = ustr '':'') (conc (all_digits 2)
      (conc (\<lambda>u. u = ustr '':'') (conc (conc (all_digits 2) spec_fraction)
      (conc spec_utc_offset (\<lambda>w. w = [])))))))))))) w"
    then show "spec_timestamp w"
      unfolding spec_timestamp_def by (elim concE) (simp, blast)
  next
    fix w
    assume "spec_timestamp w"
    then obtain YYYY MM DD hh mm ss fraction z where
      w: "w = YYYY @ ustr ''-'' @ MM @ ustr ''-'' @ DD @ ustr ''T'' @ hh @ ustr '':'' @ mm @
              ustr '':'' @ (ss @ fraction) @ z @ []"
      and *: "all_digits 4 YYYY" "all_digits 2 MM" "all_digits 2 DD"
        "all_digits 2 hh" "all_digits 2 mm" "all_digits 2 ss"
        "spec_fraction fraction" "spec_utc_offset z"
      unfolding spec_timestamp_def by auto
    show "conc (all_digits 4) (conc (\<lambda>u. u = ustr ''-'') (conc (all_digits 2)
      (conc (\<lambda>u. u = ustr ''-'') (conc (all_digits 2) (conc (\<lambda>u. u = ustr ''T'')
      (conc (all_digits 2) (conc (\<lambda>u. u = ustr '':'') (conc (all_digits 2)
      (conc (\<lambda>u. u = ustr '':'') (conc (conc (all_digits 2) spec_fraction)
      (conc spec_utc_offset (\<lambda>w. w = [])))))))))))) w"
      unfolding w using * by (intro concI) auto
  qed
qed

text \<open>The words of the specification's pattern, decided by running the pattern.\<close>

lemma spec_timestamp_code: "spec_timestamp s \<longleftrightarrow> [] \<in> set (rx_rests (seqs front) s)"
  using matches_words_front by (simp add: matches_words_def)

text \<open>
  The search succeeds on the timestamps of the specification's pattern, and on such a
  timestamp followed by one newline.
\<close>

lemma iso8601_search_iff:
  "iso8601_search s \<longleftrightarrow> spec_timestamp s \<or> (\<exists>u. s = u @ ustr ''\<newline>'' \<and> spec_timestamp u)"
proof -
  have front: "t \<in> set (rx_rests (seqs front) s) \<longleftrightarrow> (\<exists>w. s = w @ t \<and> spec_timestamp w)"
    for t
    using matches_words_front by (simp add: matches_words_def)
  have "iso8601_search s \<longleftrightarrow> (\<exists>t. t \<in> set (rx_rests iso8601 s))"
    unfolding iso8601_search_def by (cases "rx_rests iso8601 s") auto
  also have "\<dots> \<longleftrightarrow> (\<exists>t. t \<in> set (rx_rests (seqs front) s) \<and> (t = [] \<or> t = [10]))"
    unfolding iso8601_front set_rx_rests_seqs_append
    by (auto simp: seqs_Cons seqs_Nil)
  also have "\<dots> \<longleftrightarrow>
      [] \<in> set (rx_rests (seqs front) s) \<or> [10] \<in> set (rx_rests (seqs front) s)"
    by blast
  also have "\<dots> \<longleftrightarrow> spec_timestamp s \<or> (\<exists>u. s = u @ ustr ''\<newline>'' \<and> spec_timestamp u)"
    unfolding front by (simp add: ustr_def)
  finally show ?thesis .
qed

subsection \<open>The check\<close>

lemma digits_unfold:
  "digits 4 = seqs [Sym Digits, Sym Digits, Sym Digits, Sym Digits]"
  "digits 2 = seqs [Sym Digits, Sym Digits]"
  by (simp_all add: digits_def eval_nat_numeral)

lemmas rx_eval = iso8601_search_def iso8601_def seqs_def lit_def digits_unfold is_digit_def
  unicode_decimal_digits_def ustr_def front_def tz_rx_def

lemma date_time_keys:
  "map_of NEXUS_TO_PYTHON_DATA_TYPES ''ISO8601'' = Some [Py_str]"
  "map_of NEXUS_TO_PYTHON_DATA_TYPES ''NX_DATE_TIME'' = Some [Py_str]"
  by (simp_all add: NEXUS_TO_PYTHON_DATA_TYPES_def)

lemma timestamp_examples:
  "iso8601_search (ustr ''2022-01-22T12:14:12.05018Z'')"
  "\<not> iso8601_search (ustr ''2022-01-22T12:14:12.05018-00:00'')"
  "iso8601_search (ustr ''2022-01-22T12:14:12+02:00'')"
  "\<not> iso8601_search (ustr ''2022-01-22T12:14:12'')"
  by (simp_all add: rx_eval)

lemma is_valid_data_field_str:
  "nxdl_type = ''ISO8601'' \<or> nxdl_type = ''NX_DATE_TIME'' \<Longrightarrow>
   is_valid_data_field (Scalar (PyStr s)) nxdl_type path =
     (if iso8601_search s then Inr () else Inl (FormatError path))"
  by (auto simp: is_valid_data_field_def date_time_keys is_valid_data_type_def isinstance_def)

text \<open>
  What the check accepts: a string under ISO8601 or NX_DATE_TIME passes when it, or it
  without one final newline, has the form \<open>YYYY-MM-DDTHH:MM:SS[.fraction](Z|\<plusminus>HH:MM)\<close>
  with an offset other than \<open>-00:00\<close>, and fails with FormatError otherwise. The four
  timestamps of the specification behave as it says.
\<close>

lemma timestamp_accepted:
  "is_valid_data_field (Scalar (PyStr s)) ''ISO8601'' path =
     (if spec_timestamp s \<or> (\<exists>u. s = u @ ustr ''\<newline>'' \<and> spec_timestamp u) then Inr ()
      else Inl (FormatError path)) \<and>
   is_valid_data_field (Scalar (PyStr s)) ''NX_DATE_TIME'' path =
     (if spec_timestamp s \<or> (\<exists>u. s = u @ ustr ''\<newline>'' \<and> spec_timestamp u) then Inr ()
      else Inl (FormatError path)) \<and>
   is_valid_data_field (Scalar (PyStr (ustr ''2022-01-22T12:14:12.05018Z''))) ''NX_DATE_TIME'' path
     = Inr () \<and>
   is_valid_data_field (Scalar (PyStr (ustr ''2022-01-22T12:14:12.05018-00:00'')))
     ''NX_DATE_TIME'' path = Inl (FormatError path) \<and>
   is_valid_data_field (Scalar (PyStr (ustr ''2022-01-22T12:14:12+02:00''))) ''NX_DATE_TIME'' path
     = Inr () \<and>
   is_valid_data_field (Scalar (PyStr (ustr ''2022-01-22T12:14:12''))) ''NX_DATE_TIME'' path
     = Inl (FormatError path)"
  by (simp add: is_valid_data_field_str timestamp_examples) (simp add: iso8601_search_iff)

text \<open>
  The digits of the pattern are the decimal digits of Unicode: the year may be written
  in Arabic-Indic digits (code points 1632 to 1641).
\<close>

lemma timestamp_unicode_digits:
  "is_valid_data_field (Scalar (PyStr ([1634, 1632, 1634, 1634] @ ustr ''-01-22T12:14:12Z'')))
     ''NX_DATE_TIME'' path = Inr ()"
  by (simp add: is_valid_data_field_str) (simp add: rx_eval)

text \<open>
  C6 (the code at the failing input): the claim asks for FormatError unless the value
  matches the pattern. The timestamp \<open>2022-01-22T12:14:12Z\<close> followed by a newline is
  not of the pattern's form, and the check accepts it under both types: the pattern is
  anchored by \<open>^\<close> and \<open>$\<close> to match the whole string, but \<open>$\<close> also holds before a
  newline that ends the string. Followed by two newlines the same timestamp fails with
  FormatError.
\<close>

theorem timestamp_trailing_newline:
  "\<not> spec_timestamp (ustr ''2022-01-22T12:14:12Z\<newline>'') \<and>
   is_valid_data_field (Scalar (PyStr (ustr ''2022-01-22T12:14:12Z\<newline>''))) ''NX_DATE_TIME''
     path = Inr () \<and>
   is_valid_data_field (Scalar (PyStr (ustr ''2022-01-22T12:14:12Z\<newline>''))) ''ISO8601''
     path = Inr () \<and>
   is_valid_data_field (Scalar (PyStr (ustr ''2022-01-22T12:14:12Z''))) ''NX_DATE_TIME''
     path = Inr () \<and>
   is_valid_data_field (Scalar (PyStr (ustr ''2022-01-22T12:14:12Z\<newline>\<newline>'')))
     ''NX_DATE_TIME'' path = Inl (FormatError path)"
  by (simp add: is_valid_data_field_str spec_timestamp_code) (simp add: rx_eval)

section \<open>The enumeration check\<close>

lemma py_in_strs_str: "py_in_strs ndarray_eq (Scalar (PyStr s)) entries = Inr (s \<in> set entries)"
  by (induction entries) auto

lemma py_in_strs_np_str: "py_in_strs ndarray_eq (Scalar (NpStr s)) entries = Inr (s \<in> set entries)"
  by (induction entries) auto

lemma py_in_strs_int: "py_in_strs ndarray_eq (Scalar (PyInt i)) entries = Inr False"
  by (induction entries) auto

text \<open>
  On strings, lists and integers the check does what it is meant to: without a node, and
  for a node without an enumeration, every value passes. For a node with an enumeration
  a list is invalid; a string is invalid exactly when it is empty or not among the
  entries before the last one; an integer is never among the entries and is invalid.
  With the entries \<open>a\<close>, \<open>b\<close>, \<open>c\<close>: \<open>a\<close> passes, and \<open>c\<close>, the empty string and the list
  \<open>[a]\<close> fail; an invalid value is returned with the entries.
\<close>

lemma enum_check_strings_and_lists:
  "is_value_valid_element_of_enum nexus ndarray_eq v None = Inr (True, []) \<and>
   is_value_valid_element_of_enum (nexus\<lparr>nexus_get_enums := \<lambda>el. (False, enums)\<rparr>)
       ndarray_eq v (Some elem) = Inr (True, []) \<and>
   is_value_valid_element_of_enum nexus ndarray_eq (PyList objs) (Some elem) =
     (case nexus_get_enums nexus elem of
        (has_enums, enums) \<Rightarrow> if has_enums then Inr (False, enums) else Inr (True, [])) \<and>
   is_value_valid_element_of_enum nexus ndarray_eq (Scalar (PyStr s)) (Some elem) =
     (case nexus_get_enums nexus elem of
        (has_enums, enums) \<Rightarrow>
          if has_enums \<and> (s = [] \<or> s \<notin> set (butlast enums)) then Inr (False, enums)
          else Inr (True, [])) \<and>
   is_value_valid_element_of_enum nexus ndarray_eq (Scalar (PyInt i)) (Some elem) =
     (case nexus_get_enums nexus elem of
        (has_enums, enums) \<Rightarrow> if has_enums then Inr (False, enums) else Inr (True, [])) \<and>
   is_value_valid_element_of_enum
       (nexus\<lparr>nexus_get_enums := \<lambda>el. (True, [ustr ''a'', ustr ''b'', ustr ''c''])\<rparr>)
       ndarray_eq (Scalar (PyStr (ustr ''a''))) (Some elem) = Inr (True, []) \<and>
   is_value_valid_element_of_enum
       (nexus\<lparr>nexus_get_enums := \<lambda>el. (True, [ustr ''a'', ustr ''b'', ustr ''c''])\<rparr>)
       ndarray_eq (Scalar (PyStr (ustr ''c''))) (Some elem)
     = Inr (False, [ustr ''a'', ustr ''b'', ustr ''c'']) \<and>
   is_value_valid_element_of_enum
       (nexus\<lparr>nexus_get_enums := \<lambda>el. (True, [ustr ''a'', ustr ''b'', ustr ''c''])\<rparr>)
       ndarray_eq (Scalar (PyStr [])) (Some elem)
     = Inr (False, [ustr ''a'', ustr ''b'', ustr ''c'']) \<and>
   is_value_valid_element_of_enum
       (nexus\<lparr>nexus_get_enums := \<lambda>el. (True, [ustr ''a'', ustr ''b'', ustr ''c''])\<rparr>)
       ndarray_eq (PyList [Scalar (PyStr (ustr ''a''))]) (Some elem)
     = Inr (False, [ustr ''a'', ustr ''b'', ustr ''c''])"
  by (auto simp: is_value_valid_element_of_enum_def py_in_strs_str py_in_strs_int ustr_def
      split: prod.splits)

text \<open>
  C7 (the code at the failing input): a numpy array of strings passes the type check of
  NX_CHAR and so reaches the enumeration check. Under the enumeration \<open>a\<close>, \<open>b\<close>, \<open>c\<close> the
  array \<open>[a, b]\<close>, which is a sequence and is not among the entries, is not marked
  invalid: \<open>value not in enums[0:-1]\<close> raises ValueError. The one-element array \<open>[a]\<close>,
  also a sequence, is returned as valid. The list \<open>[a, b]\<close> is marked invalid: only
  \<open>list\<close> is tested for being a sequence.
\<close>

theorem enum_check_numpy_array:
  "is_valid_data_field (NdArray False [NpStr (ustr ''a''), NpStr (ustr ''b'')]) ''NX_CHAR'' path
     = Inr () \<and>
   is_value_valid_element_of_enum
       (nexus\<lparr>nexus_get_enums := \<lambda>el. (True, [ustr ''a'', ustr ''b'', ustr ''c''])\<rparr>)
       ndarray_eq (NdArray False [NpStr (ustr ''a''), NpStr (ustr ''b'')]) (Some elem)
     = Inl ValueError \<and>
   is_value_valid_element_of_enum
       (nexus\<lparr>nexus_get_enums := \<lambda>el. (True, [ustr ''a'', ustr ''b'', ustr ''c''])\<rparr>)
       ndarray_eq (NdArray False [NpStr (ustr ''a'')]) (Some elem)
     = Inr (True, []) \<and>
   is_value_valid_element_of_enum
       (nexus\<lparr>nexus_get_enums := \<lambda>el. (True, [ustr ''a'', ustr ''b'', ustr ''c''])\<rparr>)
       ndarray_eq (PyList [Scalar (PyStr (ustr ''a'')), Scalar (PyStr (ustr ''b''))]) (Some elem)
     = Inr (False, [ustr ''a'', ustr ''b'', ustr ''c''])"
  by (simp add: is_value_valid_element_of_enum_def is_valid_data_field_def
      NEXUS_TO_PYTHON_DATA_TYPES_def is_valid_data_type_def isinstance_def ustr_def)

section \<open>Missing required fields\<close>

lemma path_split_last_slash:
  assumes "CHR ''/'' \<in> set path"
  shows "path = rsplit_slash_head path @ CHR ''/'' # after_last_slash path"
proof -
  let ?P = "\<lambda>c. c \<noteq> CHR ''/''"
  from assms have ne: "dropWhile ?P (rev path) \<noteq> []" by (simp add: dropWhile_eq_Nil_conv)
  then have hd: "hd (dropWhile ?P (rev path)) = CHR ''/''"
    using hd_dropWhile [of ?P "rev path"] by simp
  have "rev path = takeWhile ?P (rev path) @ dropWhile ?P (rev path)" by simp
  also have "dropWhile ?P (rev path) = CHR ''/'' # tl (dropWhile ?P (rev path))"
    using ne hd by (cases "dropWhile ?P (rev path)") auto
  finally have "rev (rev path) =
      rev (takeWhile ?P (rev path) @ CHR ''/'' # tl (dropWhile ?P (rev path)))"
    by simp
  then show ?thesis
    using assms by (simp add: rsplit_slash_head_def after_last_slash_def)
qed

lemma rsplit_slash_head_hd:
  assumes "path \<noteq> []" and "hd path = CHR ''/''" and "rsplit_slash_head path \<noteq> []"
  shows "hd (rsplit_slash_head path) = CHR ''/''"
proof -
  from assms(1,2) have "CHR ''/'' \<in> set path" by (cases path) auto
  from path_split_last_slash [OF this] assms(3)
  have "hd path = hd (rsplit_slash_head path)"
    by (metis hd_append2)
  with assms(2) show ?thesis by simp
qed

lemma check_for_optional_parent_nearest:
  "path \<noteq> [] \<Longrightarrow> hd path = CHR ''/'' \<Longrightarrow>
   check_for_optional_parent nexus path nxdl_root =
     Inr (case nearest_optional_ancestor nexus nxdl_root path of
            None \<Rightarrow> ''<<NOT_FOUND>>'' | Some q \<Rightarrow> q)"
proof (induction path rule: ancestor_paths.induct)
  case (1 path)
  from "1.prems" have slash: "CHR ''/'' \<in> set path" by (cases path) auto
  note cfop = check_for_optional_parent.simps [of nexus path nxdl_root]
  note anc = ancestor_paths.simps [of path]
  show ?case
  proof (cases "rsplit_slash_head path = []")
    case True
    then show ?thesis
      unfolding nearest_optional_ancestor_def by (simp add: cfop anc)
  next
    case False
    with "1.prems" have hd: "hd (rsplit_slash_head path) = CHR ''/''"
      by (simp add: rsplit_slash_head_hd)
    from "1.IH" slash False hd
    have IH: "check_for_optional_parent nexus (rsplit_slash_head path) nxdl_root =
        Inr (case find (classified_optional nexus nxdl_root)
                    (ancestor_paths (rsplit_slash_head path)) of
               None \<Rightarrow> ''<<NOT_FOUND>>'' | Some q \<Rightarrow> q)"
      by (simp add: nearest_optional_ancestor_def)
    show ?thesis
      unfolding nearest_optional_ancestor_def
      using False slash IH
      by (simp add: cfop anc classified_optional_def Let_def)
  qed
qed

lemma ancestor_paths_hd:
  "path \<noteq> [] \<Longrightarrow> hd path = CHR ''/'' \<Longrightarrow> q \<in> set (ancestor_paths path) \<Longrightarrow>
     q \<noteq> [] \<and> hd q = CHR ''/''"
proof (induction path rule: ancestor_paths.induct)
  case (1 path)
  from "1.prems"(1,2) have slash: "CHR ''/'' \<in> set path" by (cases path) auto
  show ?case
  proof (cases "rsplit_slash_head path = []")
    case True
    with "1.prems"(3) slash show ?thesis by (simp add: ancestor_paths.simps [of path])
  next
    case False
    with "1.prems" have hd: "hd (rsplit_slash_head path) = CHR ''/''"
      by (simp add: rsplit_slash_head_hd)
    from "1.prems"(3) slash False
    have "q = rsplit_slash_head path \<or> q \<in> set (ancestor_paths (rsplit_slash_head path))"
      by (simp add: ancestor_paths.simps [of path])
    with "1.IH" slash False hd show ?thesis by auto
  qed
qed

lemma nearest_optional_ancestor_not_sentinel:
  assumes "path \<noteq> []" and "hd path = CHR ''/''"
    and "nearest_optional_ancestor nexus nxdl_root path = Some q"
  shows "q \<noteq> ''<<NOT_FOUND>>''"
proof -
  from assms(3) have "q \<in> set (ancestor_paths path)"
    by (auto simp: nearest_optional_ancestor_def find_Some_iff)
  from ancestor_paths_hd [OF assms(1,2) this] show ?thesis by auto
qed

lemma has_populated_descendant_children_set:
  "has_populated_descendant q data \<Longrightarrow> check_are_children_set q data"
proof -
  have "str_in p k" if "startswith k (p @ ''/'')" for p k :: string
  proof -
    from that obtain v where "k = (p @ ''/'') @ v" by (auto simp: startswith_iff)
    then have "k = [] @ p @ (''/'' @ v)" by simp
    then show ?thesis unfolding str_in_iff by blast
  qed
  then show "has_populated_descendant q data \<Longrightarrow> check_are_children_set q data"
    unfolding has_populated_descendant_def check_are_children_set_def Let_def list_ex_iff
    by fastforce
qed

lemma no_populated_mention_children_set:
  "no_populated_mention q data \<Longrightarrow> \<not> check_are_children_set q data"
  unfolding no_populated_mention_def check_are_children_set_def Let_def list_ex_iff list_all_iff
  by fastforce


lemma validate_path_missing_required:
  assumes "path \<noteq> []" and "hd path = CHR ''/''"
    and "get_name_from_data_dict_entry (after_last_slash path) = c # entry_name"
    and "c \<noteq> CHR ''@''"
    and "nexus_get_node_at_nxdl_path nexus (convert_data_converter_dict_to_nxdl_path path)
           nxdl_root = Some elem"
    and "nexus_get_required_string nexus (Some elem) = ''<<REQUIRED>>''"
    and "path_in_data_dict (convert_data_converter_dict_to_nxdl_path path) data
           = (found, renamed_path)"
    and "\<not> found \<or> map_of data renamed_path = Some (Scalar PyNone)"
  shows "validate_path nexus ndarray_eq data nxdl_root path =
     (if (case nearest_optional_ancestor nexus nxdl_root path of
            None \<Rightarrow> True | Some q \<Rightarrow> check_are_children_set q data)
      then Inl (MissingRequiredFieldError (if renamed_path \<noteq> [] then renamed_path else path))
      else Inr ())"
proof -
  from assms(1,2) have slash: "CHR ''/'' \<in> set path" by (cases path) auto
  note cfop = check_for_optional_parent_nearest [OF assms(1,2), of nexus nxdl_root]
  show ?thesis
  proof (cases "nearest_optional_ancestor nexus nxdl_root path")
    case None
    with assms slash cfop show ?thesis
      by (auto simp: validate_path_def Let_def)
  next
    case (Some q)
    from nearest_optional_ancestor_not_sentinel [OF assms(1,2) Some]
    have "q \<noteq> ''<<NOT_FOUND>>''" .
    with Some assms slash cfop show ?thesis
      by (auto simp: validate_path_def Let_def)
  qed
qed

text \<open>
  The rule for a path that begins with a slash, whose last segment's name is not empty
  and does not begin with \<open>@\<close>, whose schema node is classified REQUIRED, and whose
  matching entry of the data is missing or \<open>None\<close>. If no ancestor of the path is
  classified OPTIONAL or RECOMMENDED, or if the nearest such ancestor has a populated
  descendant in the data, the path fails with MissingRequiredFieldError, naming the
  matching key, or the path when there is none. If no populated key of the data mentions
  the nearest such ancestor, the error is suppressed and validation goes on with the
  remaining paths.
\<close>

lemma missing_required_field:
  assumes "path \<noteq> []" and "hd path = CHR ''/''"
    and "get_name_from_data_dict_entry (after_last_slash path) = c # entry_name"
    and "c \<noteq> CHR ''@''"
    and "nexus_get_node_at_nxdl_path nexus (convert_data_converter_dict_to_nxdl_path path)
           nxdl_root = Some elem"
    and "nexus_get_required_string nexus (Some elem) = ''<<REQUIRED>>''"
    and "path_in_data_dict (convert_data_converter_dict_to_nxdl_path path) data
           = (found, renamed_path)"
    and "\<not> found \<or> map_of data renamed_path = Some (Scalar PyNone)"
  shows
    "(nearest_optional_ancestor nexus nxdl_root path = None \<longrightarrow>
        validate_path nexus ndarray_eq data nxdl_root path =
          Inl (MissingRequiredFieldError (if renamed_path \<noteq> [] then renamed_path else path))) \<and>
     (\<forall>q. nearest_optional_ancestor nexus nxdl_root path = Some q \<and>
          has_populated_descendant q data \<longrightarrow>
        validate_path nexus ndarray_eq data nxdl_root path =
          Inl (MissingRequiredFieldError (if renamed_path \<noteq> [] then renamed_path else path))) \<and>
     (\<forall>q. nearest_optional_ancestor nexus nxdl_root path = Some q \<and>
          no_populated_mention q data \<longrightarrow>
        validate_path nexus ndarray_eq data nxdl_root path = Inr () \<and>
        validate_paths nexus ndarray_eq data nxdl_root (path # paths) =
          validate_paths nexus ndarray_eq data nxdl_root paths)"
  using validate_path_missing_required [OF assms, of ndarray_eq]
  by (auto dest: has_populated_descendant_children_set no_populated_mention_children_set)

lemmas ex_eval =
  convert_data_converter_dict_to_nxdl_path_def convert_data_converter_entry_to_nxdl_path_entry_def
  get_name_from_data_dict_entry_def after_last_slash_def rsplit_slash_head_def
  ex_nexus_def ex_schema_def ex_title_def ex_entry_def ex_field_def ex_app_file_def
  get_required_string_def nearest_optional_ancestor_def classified_optional_def
  has_populated_descendant_def no_populated_mention_def

lemma ex_ancestors:
  "ancestor_paths ''/ENTRY[entry]/title'' = [''/ENTRY[entry]'']"
  "ancestor_paths ''/ENTRY[entry]/instrument[instrument]/sample'' =
     [''/ENTRY[entry]/instrument[instrument]'', ''/ENTRY[entry]'']"
  by (simp_all add: ancestor_paths.simps rsplit_slash_head_def)

text \<open>
  The example of the specification: a missing title fails; the missing \<open>sample\<close> below
  the optional \<open>instrument\<close> fails when \<open>name\<close>, also below \<open>instrument\<close>, is populated,
  and is suppressed when nothing below \<open>instrument\<close> is.
\<close>

lemma missing_required_field_examples:
  "validate_data_dict ex_nexus ex_ndarray_eq
     [(''/ENTRY[entry]/title'', Scalar PyNone)] [] (Some ex_entry)
     = Inl (MissingRequiredFieldError ''/ENTRY[entry]/title'') \<and>
   validate_data_dict ex_nexus ex_ndarray_eq
     [(''/ENTRY[entry]/instrument[instrument]/sample'', Scalar PyNone)]
     [(''/ENTRY[entry]/instrument[instrument]/sample'', Scalar PyNone),
      (''/ENTRY[entry]/instrument[instrument]/name'', Scalar (PyStr (ustr ''x'')))]
     (Some ex_entry)
     = Inl (MissingRequiredFieldError ''/ENTRY[entry]/instrument[instrument]/sample'') \<and>
   validate_data_dict ex_nexus ex_ndarray_eq
     [(''/ENTRY[entry]/instrument[instrument]/sample'', Scalar PyNone)]
     [(''/ENTRY[entry]/instrument[instrument]/sample'', Scalar PyNone),
      (''/ENTRY[entry]/instrument[instrument]/name'', Scalar PyNone)]
     (Some ex_entry)
     = Inr True"
proof -
  let ?title = "''/ENTRY[entry]/title''"
  let ?sample = "''/ENTRY[entry]/instrument[instrument]/sample''"
  let ?name = "''/ENTRY[entry]/instrument[instrument]/name''"
  let ?instrument = "''/ENTRY[entry]/instrument[instrument]''"
  let ?populated = "[(?sample, Scalar PyNone), (?name, Scalar (PyStr (ustr ''x'')))]"
  let ?empty = "[(?sample, Scalar PyNone), (?name, Scalar PyNone)]"
  have title:
    "validate_path ex_nexus ex_ndarray_eq [] ex_entry ?title
       = Inl (MissingRequiredFieldError ?title)"
    using missing_required_field
      [of ?title "CHR ''t''" "''itle''" ex_nexus ex_entry ex_title "[]" False "[]"
        ex_ndarray_eq "[]"]
    by (simp add: ex_eval ex_ancestors)
  have populated:
    "validate_path ex_nexus ex_ndarray_eq ?populated ex_entry ?sample
       = Inl (MissingRequiredFieldError ?sample)"
    using missing_required_field
      [of ?sample "CHR ''s''" "''ample''" ex_nexus ex_entry "ex_field ''sample'' []"
        ?populated True ?sample ex_ndarray_eq "[]"]
    by (simp add: ex_eval ex_ancestors)
  have empty:
    "validate_path ex_nexus ex_ndarray_eq ?empty ex_entry ?sample = Inr ()"
    using missing_required_field
      [of ?sample "CHR ''s''" "''ample''" ex_nexus ex_entry "ex_field ''sample'' []"
        ?empty True ?sample ex_ndarray_eq "[]"]
    by (simp add: ex_eval ex_ancestors)
  from title populated empty show ?thesis
    by (simp add: validate_data_dict_def)
qed

text \<open>
  C1 (the code at the failing input): the required \<open>sample\<close> below the optional group
  \<open>instrument\<close> has no entry, and no entry of the data is a populated descendant of
  \<open>instrument\<close>, so the claim has the error suppressed. The data holds a populated entry
  of the neighbouring group \<open>instrument_log\<close>, and validation fails with
  MissingRequiredFieldError: \<open>check_are_children_set\<close> tests \<open>in\<close>, which holds for every
  key that contains the schema path of \<open>instrument\<close>, not only for its children. Without
  the neighbour's entry validation succeeds.
\<close>

theorem check_are_children_set_neighbour:
  "nearest_optional_ancestor ex_nexus ex_entry ''/ENTRY[entry]/instrument[instrument]/sample''
     = Some ''/ENTRY[entry]/instrument[instrument]'' \<and>
   \<not> has_populated_descendant ''/ENTRY[entry]/instrument[instrument]''
       [(''/ENTRY[entry]/instrument_log/x'', Scalar (PyStr (ustr ''x'')))] \<and>
   check_are_children_set ''/ENTRY[entry]/instrument[instrument]''
       [(''/ENTRY[entry]/instrument_log/x'', Scalar (PyStr (ustr ''x'')))] \<and>
   validate_data_dict ex_nexus ndarray_eq
     [(''/ENTRY[entry]/instrument[instrument]/sample'', Scalar PyNone)]
     [(''/ENTRY[entry]/instrument_log/x'', Scalar (PyStr (ustr ''x'')))] (Some ex_entry)
     = Inl (MissingRequiredFieldError ''/ENTRY[entry]/instrument[instrument]/sample'') \<and>
   validate_data_dict ex_nexus ndarray_eq
     [(''/ENTRY[entry]/instrument[instrument]/sample'', Scalar PyNone)]
     [] (Some ex_entry)
     = Inr True"
  by (simp add: ex_eval ex_ancestors validate_data_dict_def validate_path_def
      check_for_optional_parent.simps check_are_children_set_def)

end
